theory Spec2Isabelle
  imports Main
begin

section \<open>JavaScript values\<close>

text \<open>
  The values that flow through \<^verbatim>\<open>ai.ts\<close>, \<^verbatim>\<open>util.ts\<close> and \<^verbatim>\<open>tools.ts\<close>: JSON documents
  and \<^verbatim>\<open>undefined\<close>. Promises are not values of the model: an implementation is
  modelled by the value it settles with.

  A number of the model is a decimal \<open>m * 10 ^ e\<close> with at most 15 significant digits and
  a magnitude between \<open>10 ^ - 300\<close> and \<open>10 ^ 308\<close> (or zero), kept in normal form (\<open>m\<close> is
  not a multiple of ten). Each of these decimals is the shortest decimal of one double,
  and no two of them of the same one, so the numbers of the model are numbers of the
  runtime, told apart as the runtime tells them apart. The other doubles, the
  infinities and \<^verbatim>\<open>NaN\<close> are outside the model, and negative zero is not told from zero
  (no operation of the program tells them apart).
\<close>

definition in_fragment :: "int \<times> int \<Rightarrow> bool" where
  "in_fragment d =
     (case d of (m, e) \<Rightarrow>
        (m = 0 \<and> e = 0)
        \<or> (m \<noteq> 0 \<and> \<not> 10 dvd m \<and> \<bar>m\<bar> < 10 ^ 15 \<and> - 300 \<le> e \<and> e \<le> 293))"

typedef number = "{d. in_fragment d}"
  by (rule exI [of _ "(0, 0)"]) (simp add: in_fragment_def)

setup_lifting type_definition_number

lift_definition mantissa :: "number \<Rightarrow> int" is fst .

lift_definition exponent :: "number \<Rightarrow> int" is snd .

lift_definition decimal :: "int \<Rightarrow> int \<Rightarrow> number"
  is "\<lambda>m e. if in_fragment (m, e) then (m, e) else (0, 0)"
  by (simp add: in_fragment_def)

instantiation number :: equal
begin

definition equal_number :: "number \<Rightarrow> number \<Rightarrow> bool" where
  "equal_number x y = (mantissa x = mantissa y \<and> exponent x = exponent y)"

instance
proof
  fix x y :: number
  show "equal_class.equal x y \<longleftrightarrow> x = y"
    unfolding equal_number_def by transfer auto
qed

end

text \<open>The normal form of \<open>m * 10 ^ e\<close>, and the number it is when it is one of the model.\<close>

function strip_zeros :: "int \<Rightarrow> int \<Rightarrow> int \<times> int" where
  "strip_zeros m e = (if m \<noteq> 0 \<and> 10 dvd m then strip_zeros (m div 10) (e + 1) else (m, e))"
  by pat_completeness auto
termination
  by (relation "measure (\<lambda>(m, e). nat \<bar>m\<bar>)") auto

declare strip_zeros.simps [simp del]

definition number_of :: "int \<Rightarrow> int \<Rightarrow> number option" where
  "number_of m e =
     (if m = 0 then Some (decimal 0 0)
      else (case strip_zeros m e of
              (m', e') \<Rightarrow> if in_fragment (m', e') then Some (decimal m' e') else None))"

text \<open>The integer \<open>n\<close> as a number, for an \<open>n\<close> of at most 15 significant digits.\<close>

definition js_int :: "int \<Rightarrow> number" where
  "js_int n = (case strip_zeros n 0 of (m, e) \<Rightarrow> decimal m e)"

text \<open>
  A string is a list of code units below 256. An object is the list of its own
  properties in the order the runtime enumerates them (\<^verbatim>\<open>Object.keys\<close>, \<^verbatim>\<open>Object.entries\<close>,
  \<^verbatim>\<open>JSON.stringify\<close>): the keys that are array indices first, in ascending order, then the
  others in the order of their insertion.
\<close>

datatype js = JUndefined | JNull | JBool bool | JNum number | JStr string
  | JArr "js list" | JObj "(string \<times> js) list"

type_synonym js_object = "(string \<times> js) list"

text \<open>\<^verbatim>\<open>k in obj\<close> and \<^verbatim>\<open>obj[k]\<close> on own properties.\<close>

definition has_key :: "string \<Rightarrow> js_object \<Rightarrow> bool" where
  "has_key k obj = (k \<in> set (map fst obj))"

definition get_prop :: "js_object \<Rightarrow> string \<Rightarrow> js" where
  "get_prop obj k = (case map_of obj k of None \<Rightarrow> JUndefined | Some v \<Rightarrow> v)"

subsection \<open>Errors\<close>

text \<open>
  Every \<^verbatim>\<open>throw\<close> of the source is a value. \<open>InvariantFailed m\<close> is the \<^verbatim>\<open>Error\<close> that
  \<^verbatim>\<open>invariant(cond, m)\<close> of tiny-invariant throws; \<open>ZodError\<close> is the error of a failed
  \<^verbatim>\<open>safeParse\<close>; \<open>InvalidArguments\<close> and \<open>InvalidReturnType\<close> are the \<^verbatim>\<open>ZodError\<close>s a
  function built by \<^verbatim>\<open>ZodFunction.implement\<close> throws; \<open>TypeError\<close> and \<open>SyntaxError\<close> are
  the runtime's own; \<open>Thrown v\<close> is a value thrown by user code.
\<close>

datatype path_elem = Key string | Index nat

datatype zod_issue =
    InvalidType "path_elem list" string string
  | TooSmall "path_elem list"
  | InvalidUnion "path_elem list"

datatype js_error =
    InvariantFailed string
  | ZodError "zod_issue list"
  | InvalidArguments "zod_issue list"
  | InvalidReturnType "zod_issue list"
  | TypeError string
  | SyntaxError
  | Thrown js

fun member_access :: "js \<Rightarrow> string \<Rightarrow> js_error + js" where
  "member_access JUndefined k = Inl (TypeError ''Cannot read properties of undefined'')"
| "member_access JNull k = Inl (TypeError ''Cannot read properties of null'')"
| "member_access (JObj obj) k = Inr (get_prop obj k)"
| "member_access v k = Inr JUndefined"

section \<open>\<^verbatim>\<open>Number.prototype.toString\<close>, \<^verbatim>\<open>JSON.stringify\<close> and \<^verbatim>\<open>JSON.parse\<close>\<close>

definition digit_char :: "nat \<Rightarrow> char" where
  "digit_char d =
     (if d = 0 then CHR ''0'' else if d = 1 then CHR ''1'' else if d = 2 then CHR ''2''
      else if d = 3 then CHR ''3'' else if d = 4 then CHR ''4'' else if d = 5 then CHR ''5''
      else if d = 6 then CHR ''6'' else if d = 7 then CHR ''7'' else if d = 8 then CHR ''8''
      else if d = 9 then CHR ''9'' else if d = 10 then CHR ''a'' else if d = 11 then CHR ''b''
      else if d = 12 then CHR ''c'' else if d = 13 then CHR ''d'' else if d = 14 then CHR ''e''
      else CHR ''f'')"

function digits :: "int \<Rightarrow> string" where
  "digits n =
     (if n < 10 then [digit_char (nat n)] else digits (n div 10) @ [digit_char (nat (n mod 10))])"
  by pat_completeness auto
termination
  by (relation "measure nat") auto

declare digits.simps [simp del]

text \<open>
  \<^verbatim>\<open>x.toString()\<close>, as \<^verbatim>\<open>Number::toString\<close> of the language defines it for radix 10. With
  \<open>k\<close> the number of digits of the decimal and \<open>n\<close> the position of its point: the digits
  and \<open>n - k\<close> zeros when \<open>k \<le> n \<le> 21\<close>; the digits with a point after the first \<open>n\<close> when
  \<open>0 < n \<le> 21\<close>; \<^verbatim>\<open>0.\<close>, \<open>- n\<close> zeros and the digits when \<open>- 6 < n \<le> 0\<close>; the exponent
  notation otherwise.
\<close>

definition format_decimal :: "string \<Rightarrow> int \<Rightarrow> string" where
  "format_decimal ds e =
     (let k = int (length ds); n = e + k
      in if k \<le> n \<and> n \<le> 21 then ds @ replicate (nat (n - k)) (CHR ''0'')
         else if 0 < n \<and> n \<le> 21 then take (nat n) ds @ ''.'' @ drop (nat n) ds
         else if - 6 < n \<and> n \<le> 0 then ''0.'' @ replicate (nat (- n)) (CHR ''0'') @ ds
         else (if k = 1 then ds else take 1 ds @ ''.'' @ drop 1 ds)
              @ ''e'' @ (if n - 1 < 0 then ''-'' else ''+'') @ digits \<bar>n - 1\<bar>)"

definition number_toString :: "number \<Rightarrow> string" where
  "number_toString x =
     (if mantissa x = 0 then ''0''
      else (if mantissa x < 0 then ''-'' else [])
           @ format_decimal (digits \<bar>mantissa x\<bar>) (exponent x))"

definition quote_char :: "char \<Rightarrow> string" where
  "quote_char c =
     (if c = CHR 0x22 then [CHR 0x5C, CHR 0x22]
      else if c = CHR 0x5C then [CHR 0x5C, CHR 0x5C]
      else if c = CHR 0x08 then [CHR 0x5C, CHR ''b'']
      else if c = CHR 0x0C then [CHR 0x5C, CHR ''f'']
      else if c = CHR 0x0A then [CHR 0x5C, CHR ''n'']
      else if c = CHR 0x0D then [CHR 0x5C, CHR ''r'']
      else if c = CHR 0x09 then [CHR 0x5C, CHR ''t'']
      else if (of_char c :: nat) < 32
        then [CHR 0x5C, CHR ''u'', CHR ''0'', CHR ''0'',
              digit_char (of_char c div 16), digit_char (of_char c mod 16)]
      else [c])"

definition quote :: "string \<Rightarrow> string" where
  "quote s = CHR 0x22 # concat (map quote_char s) @ [CHR 0x22]"

fun join :: "string \<Rightarrow> string list \<Rightarrow> string" where
  "join sep [] = []"
| "join sep [x] = x"
| "join sep (x # y # ys) = x @ sep @ join sep (y # ys)"

text \<open>
  \<^verbatim>\<open>JSON.stringify(v)\<close> with no indentation. \<open>None\<close> is the result \<^verbatim>\<open>undefined\<close>: a
  property whose value is \<^verbatim>\<open>undefined\<close> is left out, an \<^verbatim>\<open>undefined\<close> array element is
  written \<^verbatim>\<open>null\<close>.
\<close>

fun JSON_stringify :: "js \<Rightarrow> string option" where
  "JSON_stringify JUndefined = None"
| "JSON_stringify JNull = Some ''null''"
| "JSON_stringify (JBool b) = Some (if b then ''true'' else ''false'')"
| "JSON_stringify (JNum n) = Some (number_toString n)"
| "JSON_stringify (JStr s) = Some (quote s)"
| "JSON_stringify (JArr xs) =
     Some (''['' @ join '','' (map (\<lambda>x. case JSON_stringify x of None \<Rightarrow> ''null'' | Some t \<Rightarrow> t) xs)
           @ '']'')"
| "JSON_stringify (JObj obj) =
     Some (''{'' @ join '',''
             (concat (map (\<lambda>(k, v). case JSON_stringify v of None \<Rightarrow> []
                                     | Some t \<Rightarrow> [quote k @ '':'' @ t]) obj))
           @ ''}'')"

subsection \<open>\<^verbatim>\<open>JSON.parse\<close>\<close>

text \<open>
  A recursive-descent reader of the JSON grammar. A reading is the value read and the
  rest of the text (\<open>Read\<close>), a text that is not JSON (\<open>Malformed\<close>, for which the runtime
  throws a \<^verbatim>\<open>SyntaxError\<close>), or \<open>Beyond\<close>: the text holds something the model has no value
  for (a number that is not one of the model, a \<^verbatim>\<open>\u\<close> escape of a code unit above 255),
  and the model says nothing of what the runtime does with it.
\<close>

datatype 'a reading = Read 'a string | Malformed | Beyond

fun skip_ws :: "string \<Rightarrow> string" where
  "skip_ws [] = []"
| "skip_ws (c # cs) =
     (if c = CHR '' '' \<or> c = CHR 0x09 \<or> c = CHR 0x0A \<or> c = CHR 0x0D then skip_ws cs else c # cs)"

fun strip_prefix :: "string \<Rightarrow> string \<Rightarrow> string option" where
  "strip_prefix [] s = Some s"
| "strip_prefix (p # ps) [] = None"
| "strip_prefix (p # ps) (c # cs) = (if p = c then strip_prefix ps cs else None)"

definition unescape :: "char \<Rightarrow> char option" where
  "unescape e =
     (if e = CHR 0x22 then Some (CHR 0x22)
      else if e = CHR 0x5C then Some (CHR 0x5C)
      else if e = CHR ''/'' then Some (CHR ''/'')
      else if e = CHR ''b'' then Some (CHR 0x08)
      else if e = CHR ''f'' then Some (CHR 0x0C)
      else if e = CHR ''n'' then Some (CHR 0x0A)
      else if e = CHR ''r'' then Some (CHR 0x0D)
      else if e = CHR ''t'' then Some (CHR 0x09)
      else None)"

definition digit_value :: "char \<Rightarrow> int option" where
  "digit_value c =
     (if (48::nat) \<le> of_char c \<and> (of_char c :: nat) \<le> 57 then Some (int (of_char c) - 48)
      else None)"

definition hex_value :: "char \<Rightarrow> int option" where
  "hex_value c =
     (if (48::nat) \<le> of_char c \<and> (of_char c :: nat) \<le> 57 then Some (int (of_char c) - 48)
      else if (65::nat) \<le> of_char c \<and> (of_char c :: nat) \<le> 70 then Some (int (of_char c) - 55)
      else if (97::nat) \<le> of_char c \<and> (of_char c :: nat) \<le> 102 then Some (int (of_char c) - 87)
      else None)"

text \<open>The code unit of the four hexadecimal digits after \<^verbatim>\<open>\u\<close>.\<close>

definition code_unit :: "string \<Rightarrow> (int \<times> string) option" where
  "code_unit s =
     (case s of
        a # b # c # d # rest \<Rightarrow>
          (case (hex_value a, hex_value b, hex_value c, hex_value d) of
             (Some h1, Some h2, Some h3, Some h4) \<Rightarrow>
               Some (((h1 * 16 + h2) * 16 + h3) * 16 + h4, rest)
           | _ \<Rightarrow> None)
      | _ \<Rightarrow> None)"

text \<open>The characters of a string after its opening quote, up to the closing one.\<close>

fun parse_string_body :: "nat \<Rightarrow> string \<Rightarrow> string reading" where
  "parse_string_body 0 s = Beyond"
| "parse_string_body (Suc fuel) [] = Malformed"
| "parse_string_body (Suc fuel) (c # cs) =
     (if c = CHR 0x22 then Read [] cs
      else if c = CHR 0x5C then
        (case cs of
           [] \<Rightarrow> Malformed
         | e # r \<Rightarrow>
            if e = CHR ''u'' then
              (case code_unit r of
                 None \<Rightarrow> Malformed
               | Some (code, r') \<Rightarrow>
                  if 255 < code then Beyond
                  else (case parse_string_body fuel r' of
                          Read s rest \<Rightarrow> Read (char_of code # s) rest
                        | Malformed \<Rightarrow> Malformed
                        | Beyond \<Rightarrow> Beyond))
            else
              (case unescape e of
                 None \<Rightarrow> Malformed
               | Some ch \<Rightarrow>
                  (case parse_string_body fuel r of
                     Read s rest \<Rightarrow> Read (ch # s) rest
                   | Malformed \<Rightarrow> Malformed
                   | Beyond \<Rightarrow> Beyond)))
      else if (of_char c :: nat) < 32 then Malformed
      else (case parse_string_body fuel cs of
              Read s rest \<Rightarrow> Read (c # s) rest
            | Malformed \<Rightarrow> Malformed
            | Beyond \<Rightarrow> Beyond))"

text \<open>
  A number literal: an optional minus sign, the integer part (\<^verbatim>\<open>0\<close>, or digits that do
  not start with \<^verbatim>\<open>0\<close>), an optional fraction, an optional exponent. \<open>read_digits\<close> reads
  the longest run of digits and returns their value and their count.
\<close>

fun read_digits :: "int \<Rightarrow> nat \<Rightarrow> string \<Rightarrow> int \<times> nat \<times> string" where
  "read_digits acc count [] = (acc, count, [])"
| "read_digits acc count (c # cs) =
     (case digit_value c of
        None \<Rightarrow> (acc, count, c # cs)
      | Some d \<Rightarrow> read_digits (10 * acc + d) (Suc count) cs)"

definition read_integer_part :: "string \<Rightarrow> (int \<times> string) option" where
  "read_integer_part s =
     (case s of
        [] \<Rightarrow> None
      | c # cs \<Rightarrow>
         if c = CHR ''0'' then Some (0, cs)
         else (case read_digits 0 0 s of
                 (n, count, rest) \<Rightarrow> if count = 0 then None else Some (n, rest)))"

definition read_fraction :: "int \<Rightarrow> string \<Rightarrow> (int \<times> nat \<times> string) option" where
  "read_fraction n s =
     (case s of
        c # cs \<Rightarrow>
          if c = CHR ''.'' then
            (case read_digits n 0 cs of
               (n', count, rest) \<Rightarrow> if count = 0 then None else Some (n', count, rest))
          else Some (n, 0, s)
      | [] \<Rightarrow> Some (n, 0, s))"

definition read_exponent :: "string \<Rightarrow> (int \<times> string) option" where
  "read_exponent s =
     (case s of
        c # cs \<Rightarrow>
          if c = CHR ''e'' \<or> c = CHR ''E'' then
            (case cs of
               [] \<Rightarrow> None
             | sign # cs' \<Rightarrow>
                (case read_digits 0 0
                        (if sign = CHR ''+'' \<or> sign = CHR ''-'' then cs' else cs) of
                   (n, count, rest) \<Rightarrow>
                     if count = 0 then None
                     else Some (if sign = CHR ''-'' then - n else n, rest)))
          else Some (0, s)
      | [] \<Rightarrow> Some (0, s))"

definition parse_number :: "string \<Rightarrow> js reading" where
  "parse_number s =
     (let negative = (case s of c # _ \<Rightarrow> c = CHR ''-'' | [] \<Rightarrow> False);
          s' = (if negative then tl s else s)
      in case read_integer_part s' of
           None \<Rightarrow> Malformed
         | Some (n, rest) \<Rightarrow>
            (case read_fraction n rest of
               None \<Rightarrow> Malformed
             | Some (n', places, rest') \<Rightarrow>
                (case read_exponent rest' of
                   None \<Rightarrow> Malformed
                 | Some (ex, rest'') \<Rightarrow>
                    (case number_of (if negative then - n' else n') (ex - int places) of
                       None \<Rightarrow> Beyond
                     | Some x \<Rightarrow> Read (JNum x) rest''))))"

text \<open>
  \<^verbatim>\<open>obj[k] = v\<close>, which is how the reader defines the properties of an object: the value
  of a key the object has is replaced where it is; a new key that is an array index
  (the decimal text of an integer from 0 to \<open>2 ^ 32 - 2\<close>) goes among the array indices, in
  ascending order; any other new key goes last.
\<close>

definition array_index :: "string \<Rightarrow> int option" where
  "array_index k =
     (case read_digits 0 0 k of
        (n, count, rest) \<Rightarrow>
          if count = 0 \<or> rest \<noteq> [] then None
          else if 1 < count \<and> hd k = CHR ''0'' then None
          else if 4294967294 < n then None
          else Some n)"

fun insert_index :: "js_object \<Rightarrow> string \<Rightarrow> int \<Rightarrow> js \<Rightarrow> js_object" where
  "insert_index [] k i v = [(k, v)]"
| "insert_index ((k', v') # obj) k i v =
     (case array_index k' of
        None \<Rightarrow> (k, v) # (k', v') # obj
      | Some j \<Rightarrow> if i < j then (k, v) # (k', v') # obj else (k', v') # insert_index obj k i v)"

fun replace_prop :: "js_object \<Rightarrow> string \<Rightarrow> js \<Rightarrow> js_object" where
  "replace_prop [] k v = []"
| "replace_prop ((k', v') # obj) k v =
     (if k' = k then (k, v) # obj else (k', v') # replace_prop obj k v)"

definition set_prop :: "js_object \<Rightarrow> string \<Rightarrow> js \<Rightarrow> js_object" where
  "set_prop obj k v =
     (if has_key k obj then replace_prop obj k v
      else (case array_index k of
              None \<Rightarrow> obj @ [(k, v)]
            | Some i \<Rightarrow> insert_index obj k i v))"

text \<open>
  The recursion is on a fuel that \<open>JSON_parse\<close> sets from the length of the text. Every
  call that spends fuel has consumed a character since the call before the previous
  one, so the fuel does not run out; a reading that would run out of it is \<open>Beyond\<close>.
\<close>

fun parse_value :: "nat \<Rightarrow> string \<Rightarrow> js reading"
  and parse_elements :: "nat \<Rightarrow> string \<Rightarrow> js list reading"
  and parse_members :: "nat \<Rightarrow> js_object \<Rightarrow> string \<Rightarrow> js_object reading"
where
  "parse_value 0 s = Beyond"
| "parse_value (Suc fuel) s =
     (case skip_ws s of
        [] \<Rightarrow> Malformed
      | c # r \<Rightarrow>
         if c = CHR ''{'' then
           (case skip_ws r of
              [] \<Rightarrow> Malformed
            | c' # r' \<Rightarrow>
               if c' = CHR ''}'' then Read (JObj []) r'
               else (case parse_members fuel [] r of
                       Read obj rest \<Rightarrow> Read (JObj obj) rest
                     | Malformed \<Rightarrow> Malformed
                     | Beyond \<Rightarrow> Beyond))
         else if c = CHR ''['' then
           (case skip_ws r of
              [] \<Rightarrow> Malformed
            | c' # r' \<Rightarrow>
               if c' = CHR '']'' then Read (JArr []) r'
               else (case parse_elements fuel r of
                       Read vs rest \<Rightarrow> Read (JArr vs) rest
                     | Malformed \<Rightarrow> Malformed
                     | Beyond \<Rightarrow> Beyond))
         else if c = CHR 0x22 then
           (case parse_string_body (Suc (length r)) r of
              Read str rest \<Rightarrow> Read (JStr str) rest
            | Malformed \<Rightarrow> Malformed
            | Beyond \<Rightarrow> Beyond)
         else if c = CHR ''n'' then
           (case strip_prefix ''ull'' r of None \<Rightarrow> Malformed | Some rest \<Rightarrow> Read JNull rest)
         else if c = CHR ''t'' then
           (case strip_prefix ''rue'' r of None \<Rightarrow> Malformed | Some rest \<Rightarrow> Read (JBool True) rest)
         else if c = CHR ''f'' then
           (case strip_prefix ''alse'' r of None \<Rightarrow> Malformed | Some rest \<Rightarrow> Read (JBool False) rest)
         else parse_number (c # r))"
| "parse_elements 0 s = Beyond"
| "parse_elements (Suc fuel) s =
     (case parse_value fuel s of
        Malformed \<Rightarrow> Malformed
      | Beyond \<Rightarrow> Beyond
      | Read v rest \<Rightarrow>
         (case skip_ws rest of
            [] \<Rightarrow> Malformed
          | c # r \<Rightarrow>
             if c = CHR '','' then
               (case parse_elements fuel r of
                  Read vs rest' \<Rightarrow> Read (v # vs) rest'
                | Malformed \<Rightarrow> Malformed
                | Beyond \<Rightarrow> Beyond)
             else if c = CHR '']'' then Read [v] r
             else Malformed))"
| "parse_members 0 obj s = Beyond"
| "parse_members (Suc fuel) obj s =
     (case skip_ws s of
        [] \<Rightarrow> Malformed
      | q # r \<Rightarrow>
         if q \<noteq> CHR 0x22 then Malformed
         else
           (case parse_string_body (Suc (length r)) r of
              Malformed \<Rightarrow> Malformed
            | Beyond \<Rightarrow> Beyond
            | Read k rest \<Rightarrow>
               (case skip_ws rest of
                  [] \<Rightarrow> Malformed
                | c # r' \<Rightarrow>
                   if c \<noteq> CHR '':'' then Malformed
                   else
                     (case parse_value fuel r' of
                        Malformed \<Rightarrow> Malformed
                      | Beyond \<Rightarrow> Beyond
                      | Read v rest' \<Rightarrow>
                         (case skip_ws rest' of
                            [] \<Rightarrow> Malformed
                          | d # r'' \<Rightarrow>
                             if d = CHR '','' then parse_members fuel (set_prop obj k v) r''
                             else if d = CHR ''}'' then Read (set_prop obj k v) r''
                             else Malformed)))))"

text \<open>
  \<open>None\<close> is a text the model has no answer for; \<open>Some (Inl SyntaxError)\<close> a text for which
  \<^verbatim>\<open>JSON.parse\<close> throws; \<open>Some (Inr v)\<close> a text for which it returns \<open>v\<close>.
\<close>

definition JSON_parse :: "string \<Rightarrow> (js_error + js) option" where
  "JSON_parse text =
     (case parse_value (2 * length text + 2) text of
        Beyond \<Rightarrow> None
      | Malformed \<Rightarrow> Some (Inl SyntaxError)
      | Read v rest \<Rightarrow> if skip_ws rest = [] then Some (Inr v) else Some (Inl SyntaxError))"

section \<open>The schema library: zod types, \<^verbatim>\<open>safeParse\<close>, \<^verbatim>\<open>zodToJsonSchema\<close>\<close>

text \<open>
  The fragment of zod the development covers: \<^verbatim>\<open>z.string()\<close>, \<^verbatim>\<open>z.number()\<close>,
  \<^verbatim>\<open>z.boolean()\<close>, \<^verbatim>\<open>z.unknown()\<close>, \<^verbatim>\<open>z.array(t)\<close> and \<^verbatim>\<open>z.object(shape)\<close> (whose
  default is to strip unknown keys), without refinements, and described only at the
  function. Every node is its own schema instance. The shape of an object schema is the
  list of its keys in the order of \<^verbatim>\<open>Object.keys\<close>, none of them a name that
  \<^verbatim>\<open>Object.prototype\<close> has. \<open>typeName\<close> is \<^verbatim>\<open>_def.typeName\<close>.
\<close>

datatype zod_type = ZodString | ZodNumber | ZodBoolean | ZodUnknown
  | ZodArray zod_type | ZodObject "(string \<times> zod_type) list"

fun typeName :: "zod_type \<Rightarrow> string" where
  "typeName ZodString = ''ZodString''"
| "typeName ZodNumber = ''ZodNumber''"
| "typeName ZodBoolean = ''ZodBoolean''"
| "typeName ZodUnknown = ''ZodUnknown''"
| "typeName (ZodArray t) = ''ZodArray''"
| "typeName (ZodObject shape) = ''ZodObject''"

text \<open>\<^verbatim>\<open>z.object({ k: t })\<close> with a single key.\<close>

definition z_object1 :: "string \<Rightarrow> zod_type \<Rightarrow> zod_type" where
  "z_object1 k t = ZodObject [(k, t)]"

text \<open>A type with no object schema in it.\<close>

fun object_free :: "zod_type \<Rightarrow> bool" where
  "object_free (ZodArray t) = object_free t"
| "object_free (ZodObject shape) = False"
| "object_free t = True"

text \<open>
  A \<^verbatim>\<open>ZodFunction\<close>: the items of its argument tuple (the tuple's rest is
  \<^verbatim>\<open>z.unknown()\<close>), its return type (\<^verbatim>\<open>z.unknown()\<close> until \<^verbatim>\<open>.returns\<close> is called) and
  its description (\<^verbatim>\<open>undefined\<close> until \<^verbatim>\<open>.describe\<close> is called). An item is \<open>None\<close> where the
  array holds \<^verbatim>\<open>undefined\<close>, which is what \<^verbatim>\<open>.args(undefined)\<close> stores.
\<close>

record zod_function =
  parameters :: "zod_type option list"
  returnType :: zod_type
  description :: "string option"

definition args1 :: "zod_function \<Rightarrow> zod_type option \<Rightarrow> zod_function" where
  "args1 f item = f\<lparr>parameters := [item]\<rparr>"

text \<open>
  \<^verbatim>\<open>getParsedType\<close> and \<^verbatim>\<open>_parse\<close>. A failed parse collects the issues of every element
  and property; a successful parse of an array or an object builds a new value from the
  parsed parts, so an object keeps only the keys of the shape. A shape key is set in the
  output when its parsed value is not \<^verbatim>\<open>undefined\<close> or the key is in the input.
\<close>

fun getParsedType :: "js \<Rightarrow> string" where
  "getParsedType JUndefined = ''undefined''"
| "getParsedType JNull = ''null''"
| "getParsedType (JBool b) = ''boolean''"
| "getParsedType (JNum n) = ''number''"
| "getParsedType (JStr s) = ''string''"
| "getParsedType (JArr xs) = ''array''"
| "getParsedType (JObj obj) = ''object''"

fun merge_results :: "(zod_issue list + 'a) list \<Rightarrow> zod_issue list + 'a list" where
  "merge_results [] = Inr []"
| "merge_results (r # rs) =
     (case r of
        Inl e \<Rightarrow> (case merge_results rs of Inl es \<Rightarrow> Inl (e @ es) | Inr xs \<Rightarrow> Inl e)
      | Inr x \<Rightarrow> (case merge_results rs of Inl es \<Rightarrow> Inl es | Inr xs \<Rightarrow> Inr (x # xs)))"

definition mergeObjectSync :: "(string \<times> bool \<times> js) list \<Rightarrow> js" where
  "mergeObjectSync pairs =
     JObj (map (\<lambda>(k, alwaysSet, v). (k, v))
            (filter (\<lambda>(k, alwaysSet, v). k \<noteq> ''__proto__'' \<and> (v \<noteq> JUndefined \<or> alwaysSet)) pairs))"

fun zparse :: "zod_type \<Rightarrow> path_elem list \<Rightarrow> js \<Rightarrow> zod_issue list + js" where
  "zparse ZodString path v =
     (case v of JStr s \<Rightarrow> Inr v | _ \<Rightarrow> Inl [InvalidType path ''string'' (getParsedType v)])"
| "zparse ZodNumber path v =
     (case v of JNum n \<Rightarrow> Inr v | _ \<Rightarrow> Inl [InvalidType path ''number'' (getParsedType v)])"
| "zparse ZodBoolean path v =
     (case v of JBool b \<Rightarrow> Inr v | _ \<Rightarrow> Inl [InvalidType path ''boolean'' (getParsedType v)])"
| "zparse ZodUnknown path v = Inr v"
| "zparse (ZodArray t) path v =
     (case v of
        JArr xs \<Rightarrow>
          (case merge_results (map (\<lambda>(i, x). zparse t (path @ [Index i]) x) (enumerate 0 xs)) of
             Inl es \<Rightarrow> Inl es
           | Inr ys \<Rightarrow> Inr (JArr ys))
      | _ \<Rightarrow> Inl [InvalidType path ''array'' (getParsedType v)])"
| "zparse (ZodObject shape) path v =
     (case v of
        JObj obj \<Rightarrow>
          (case merge_results
                  (map (\<lambda>(k, t). case zparse t (path @ [Key k]) (get_prop obj k) of
                                    Inl es \<Rightarrow> Inl es
                                  | Inr d \<Rightarrow> Inr (k, has_key k obj, d)) shape) of
             Inl es \<Rightarrow> Inl es
           | Inr pairs \<Rightarrow> Inr (mergeObjectSync pairs))
      | _ \<Rightarrow> Inl [InvalidType path ''object'' (getParsedType v)])"

definition safeParse :: "zod_type \<Rightarrow> js \<Rightarrow> zod_issue list + js" where
  "safeParse t v = zparse t [] v"

text \<open>
  Two parses agree when both fail, or both succeed with the same data.
\<close>

definition same_outcome :: "zod_issue list + 'a \<Rightarrow> zod_issue list + 'a \<Rightarrow> bool" where
  "same_outcome r r' = (case r of Inl es \<Rightarrow> isl r' | Inr d \<Rightarrow> r' = Inr d)"

text \<open>
  The data a successful parse yields from a value: the value itself, but for the
  objects in it where the type has an object schema, each of which is replaced by the
  object of the keys the schema declares (in the schema's order, each with the data of
  its value), so that the keys the schema does not declare are gone.
\<close>

fun declared_part :: "zod_type \<Rightarrow> js \<Rightarrow> js" where
  "declared_part (ZodArray t) v =
     (case v of JArr xs \<Rightarrow> JArr (map (declared_part t) xs) | _ \<Rightarrow> v)"
| "declared_part (ZodObject shape) v =
     (case v of
        JObj obj \<Rightarrow>
          JObj (map (\<lambda>(k, t). (k, declared_part t (get_prop obj k)))
                 (filter (\<lambda>(k, t). k \<noteq> ''__proto__''
                            \<and> (declared_part t (get_prop obj k) \<noteq> JUndefined \<or> has_key k obj))
                    shape))
      | _ \<Rightarrow> v)"
| "declared_part t v = v"

text \<open>
  The argument tuple of a function, parsed against the argument list of a call: too few
  arguments are an issue; an argument beyond the items, or at an \<^verbatim>\<open>undefined\<close> item, is
  parsed by the rest schema \<^verbatim>\<open>z.unknown()\<close>.
\<close>

definition tuple_item :: "zod_type option list \<Rightarrow> nat \<Rightarrow> zod_type" where
  "tuple_item items i =
     (if i < length items then (case items ! i of None \<Rightarrow> ZodUnknown | Some t \<Rightarrow> t)
      else ZodUnknown)"

definition tuple_safeParse :: "zod_type option list \<Rightarrow> js list \<Rightarrow> zod_issue list + js list" where
  "tuple_safeParse items data =
     (if length data < length items then Inl [TooSmall []]
      else merge_results (map (\<lambda>(i, x). zparse (tuple_item items i) [Index i] x) (enumerate 0 data)))"

text \<open>
  \<^verbatim>\<open>z.union([t, z.promise(t)])\<close> on a value of the model, which is never a promise: the
  data of the first option when it is valid, an \<^verbatim>\<open>invalid_union\<close> issue otherwise.
\<close>

definition maybeAZodPromise_safeParse :: "zod_type \<Rightarrow> js \<Rightarrow> zod_issue list + js" where
  "maybeAZodPromise_safeParse zodType v =
     (case safeParse zodType v of Inl es \<Rightarrow> Inl [InvalidUnion []] | Inr d \<Rightarrow> Inr d)"

text \<open>
  \<^verbatim>\<open>zodToJsonSchema(schema)\<close> with its default options: \<open>parseDef\<close> is the schema of a node,
  and the document of the root carries the \<^verbatim>\<open>$schema\<close> tag after it. A property is
  required unless its type accepts \<^verbatim>\<open>undefined\<close>; an empty \<^verbatim>\<open>required\<close> is deleted.
\<close>

definition isOptional :: "zod_type \<Rightarrow> bool" where
  "isOptional t = (case safeParse t JUndefined of Inl es \<Rightarrow> False | Inr d \<Rightarrow> True)"

fun parseDef :: "zod_type \<Rightarrow> js_object" where
  "parseDef ZodString = [(''type'', JStr ''string'')]"
| "parseDef ZodNumber = [(''type'', JStr ''number'')]"
| "parseDef ZodBoolean = [(''type'', JStr ''boolean'')]"
| "parseDef ZodUnknown = []"
| "parseDef (ZodArray t) = [(''type'', JStr ''array''), (''items'', JObj (parseDef t))]"
| "parseDef (ZodObject shape) =
     [(''type'', JStr ''object''),
      (''properties'', JObj (map (\<lambda>(k, t). (k, JObj (parseDef t))) shape))]
     @ (let required = map fst (filter (\<lambda>(k, t). \<not> isOptional t) shape)
        in if required = [] then [] else [(''required'', JArr (map JStr required))])
     @ [(''additionalProperties'', JBool False)]"

definition zodToJsonSchema :: "zod_type \<Rightarrow> js_object" where
  "zodToJsonSchema schema =
     parseDef schema @ [(''$schema'', JStr ''http://json-schema.org/draft-07/schema#'')]"

section \<open>\<^verbatim>\<open>util.ts\<close>\<close>

definition not_convertible_message :: string where
  "not_convertible_message = ''The provided Zod schema must be convertible to a JSON schema''"

definition trimGeneratedJsonSchema :: "js_object \<Rightarrow> js_error + js_object" where
  "trimGeneratedJsonSchema schema =
     (let rest = filter (\<lambda>(k, v). k \<noteq> ''$schema'' \<and> k \<noteq> ''definitions'') schema
      in if \<not> has_key ''type'' rest
         then Inl (InvariantFailed not_convertible_message)
         else if has_key ''properties'' rest
         then Inr [(''type'', get_prop rest ''type''),
                   (''properties'', get_prop rest ''properties''),
                   (''required'', get_prop rest ''required''),
                   (''description'', get_prop rest ''description'')]
         else Inr [(''type'', get_prop rest ''type''),
                   (''description'', get_prop rest ''description'')])"

section \<open>\<^verbatim>\<open>ai.ts\<close>: \<open>validateFunction\<close>\<close>

text \<open>
  The object \<open>validateFunction\<close> returns holds the two schemas, the description and the
  closure \<^verbatim>\<open>postProcessResult\<close>. The closure is represented by the two variables it
  captures, \<open>returnTypeWrappedInObject\<close> and \<open>providedReturnTypeIsAnObject\<close>, and
  \<open>postProcessResult\<close> is its body.
\<close>

record function_contract =
  inputSchema :: js_object
  outputSchema :: js_object
  contract_description :: string
  returnTypeWrappedInObject :: zod_type
  providedReturnTypeIsAnObject :: bool

definition single_argument_message :: string where
  "single_argument_message =
     ''The provided Zod function must have exactly one argument - for multiple inputs, use an input object''"

definition description_message :: string where
  "description_message =
     ''The provided Zod function must have a description - this is the implementation that gets passed to the LLM.''"

definition return_type_message :: string where
  "return_type_message =
     ''The provided Zod function must have a return type - this is the output shape passed to the LLM.''"

text \<open>\<^verbatim>\<open>zodToJsonSchema\<close> applied to an item of the argument tuple, which may be \<^verbatim>\<open>undefined\<close>.\<close>

definition zodToJsonSchema_item :: "zod_type option \<Rightarrow> js_error + js_object" where
  "zodToJsonSchema_item item =
     (case item of
        None \<Rightarrow> Inl (TypeError ''Cannot read properties of undefined'')
      | Some t \<Rightarrow> Inr (zodToJsonSchema t))"

definition validateFunction :: "zod_function \<Rightarrow> js_error + function_contract" where
  "validateFunction zodFunction =
     (let zodFnReturn = returnType zodFunction;
          argumentItems = parameters zodFunction
      in if length argumentItems \<noteq> 1 then Inl (InvariantFailed single_argument_message)
         else
           (case description zodFunction of
              None \<Rightarrow> Inl (InvariantFailed description_message)
            | Some descr \<Rightarrow>
               if typeName zodFnReturn = ''ZodUnknown''
               then Inl (InvariantFailed return_type_message)
               else
                 (let isAnObject = (typeName zodFnReturn = ''ZodObject'');
                      wrapped = (if isAnObject then zodFnReturn
                                 else z_object1 ''result'' zodFnReturn)
                  in case zodToJsonSchema_item (argumentItems ! 0) of
                       Inl e \<Rightarrow> Inl e
                     | Inr generated \<Rightarrow>
                        (case trimGeneratedJsonSchema generated of
                           Inl e \<Rightarrow> Inl e
                         | Inr input \<Rightarrow>
                            (case trimGeneratedJsonSchema (zodToJsonSchema wrapped) of
                               Inl e \<Rightarrow> Inl e
                             | Inr output \<Rightarrow>
                                Inr \<lparr>inputSchema = input,
                                     outputSchema = output,
                                     contract_description = descr,
                                     returnTypeWrappedInObject = wrapped,
                                     providedReturnTypeIsAnObject = isAnObject\<rparr>)))))"

definition postProcessResult :: "function_contract \<Rightarrow> js \<Rightarrow> js_error + js" where
  "postProcessResult contract result =
     (case safeParse (returnTypeWrappedInObject contract) result of
        Inl es \<Rightarrow> Inl (ZodError es)
      | Inr data \<Rightarrow>
         if providedReturnTypeIsAnObject contract then Inr data
         else member_access data ''result'')"

section \<open>\<^verbatim>\<open>tools.ts\<close>\<close>

text \<open>
  A user-supplied implementation is a function of its argument that may read and change
  a state of the program (\<open>'s\<close>), and returns a value or throws. A registry
  (\<^verbatim>\<open>ToolRecord\<close>) is the list of its entries in the order of \<^verbatim>\<open>Object.entries\<close>;
  \<^verbatim>\<open>tools[name]\<close> is the lookup of an own key.
\<close>

type_synonym 's js_function = "js \<Rightarrow> 's \<Rightarrow> (js_error + js) \<times> 's"

record 's tool =
  zodFunctionSchema :: zod_function
  implementation :: "'s js_function"

type_synonym 's ToolRecord = "(string \<times> 's tool) list"

record function_spec =
  fn_name :: string
  fn_description :: string
  fn_parameters :: "js_object option"

record chat_completion_tool =
  tool_type :: string
  tool_function :: function_spec

record tool_call_function =
  call_name :: string
  call_arguments :: string

record tool_call =
  call_id :: string
  call_function :: tool_call_function

record tool_message =
  role :: string
  tool_call_id :: string
  msg_name :: string
  content :: "string option"

definition zero_or_one_argument_message :: string where
  "zero_or_one_argument_message =
     ''The provided Zod function must have exactly zero arguments or one argument - for multiple inputs, use an input object''"

text \<open>\<^verbatim>\<open>Array.prototype.map\<close> with a callback that may throw: the first throw ends the loop.\<close>

fun map_throwing :: "('a \<Rightarrow> js_error + 'b) \<Rightarrow> 'a list \<Rightarrow> js_error + 'b list" where
  "map_throwing f [] = Inr []"
| "map_throwing f (x # xs) =
     (case f x of
        Inl e \<Rightarrow> Inl e
      | Inr y \<Rightarrow> (case map_throwing f xs of Inl e \<Rightarrow> Inl e | Inr ys \<Rightarrow> Inr (y # ys)))"

text \<open>The body of the callback of \<open>formatTools\<close>, for the entry \<open>(name, fn)\<close>.\<close>

definition formatTool :: "string \<times> 's tool \<Rightarrow> js_error + chat_completion_tool" where
  "formatTool entry =
     (let name = fst entry;
          fn = snd entry;
          functionArguments = parameters (zodFunctionSchema fn)
      in if \<not> (length functionArguments = 1 \<or> length functionArguments = 0)
         then Inl (InvariantFailed zero_or_one_argument_message)
         else
           (case trimGeneratedJsonSchema (zodToJsonSchema (returnType (zodFunctionSchema fn))) of
              Inl e \<Rightarrow> Inl e
            | Inr trimmed \<Rightarrow>
               (let descriptionAddendum =
                      ''Responses will match the following JSONSchema definition: ''
                      @ (case JSON_stringify (JObj trimmed) of
                           None \<Rightarrow> ''undefined'' | Some text \<Rightarrow> text);
                    descr =
                      (case description (zodFunctionSchema fn) of
                         None \<Rightarrow> []
                       | Some d \<Rightarrow> if d = [] then [] else d @ [CHR 0x0A, CHR 0x0A])
                      @ descriptionAddendum
                in case (case functionArguments of
                           [Some argument] \<Rightarrow>
                             (case trimGeneratedJsonSchema (zodToJsonSchema argument) of
                                Inl e \<Rightarrow> Inl e
                              | Inr params \<Rightarrow> Inr (Some params))
                         | _ \<Rightarrow> Inr None) of
                     Inl e \<Rightarrow> Inl e
                   | Inr params \<Rightarrow>
                      Inr \<lparr>tool_type = ''function'',
                           tool_function =
                             \<lparr>fn_name = name, fn_description = descr, fn_parameters = params\<rparr>\<rparr>)))"

text \<open>
  The expression \<open>formatTools\<close> gives the \<^verbatim>\<open>parameters\<close> property, as a function of the
  items of the argument tuple.
\<close>

definition argument_schema :: "zod_type option list \<Rightarrow> js_error + js_object option" where
  "argument_schema functionArguments =
     (case functionArguments of
        [Some argument] \<Rightarrow>
          (case trimGeneratedJsonSchema (zodToJsonSchema argument) of
             Inl e \<Rightarrow> Inl e
           | Inr params \<Rightarrow> Inr (Some params))
      | _ \<Rightarrow> Inr None)"

definition formatTools :: "'s ToolRecord \<Rightarrow> js_error + chat_completion_tool list" where
  "formatTools tools = map_throwing formatTool tools"

text \<open>
  \<^verbatim>\<open>schema.returns(maybeAZodPromise(t)).implement(func)\<close>, called with one argument: the
  argument is parsed by the argument tuple, \<open>func\<close> is applied to the parsed argument, and
  what it returns is parsed by the return type. A failed parse throws before or after
  \<open>func\<close> has run, and leaves the state as it is at that point.
\<close>

definition parse_returned :: "zod_type \<Rightarrow> (js_error + js) \<times> 's \<Rightarrow> (js_error + js) \<times> 's" where
  "parse_returned declaredReturn outcome =
     (case outcome of
        (Inl e, s') \<Rightarrow> (Inl e, s')
      | (Inr result, s') \<Rightarrow>
         (case maybeAZodPromise_safeParse declaredReturn result of
            Inl es \<Rightarrow> (Inl (InvalidReturnType es), s')
          | Inr d \<Rightarrow> (Inr d, s')))"

definition implement :: "zod_type option list \<Rightarrow> zod_type \<Rightarrow> 's js_function \<Rightarrow> 's js_function" where
  "implement items declaredReturn func arg s =
     (case tuple_safeParse items [arg] of
        Inl es \<Rightarrow> (Inl (InvalidArguments es), s)
      | Inr parsedArgs \<Rightarrow>
         parse_returned declaredReturn
           (func (case parsedArgs of [] \<Rightarrow> JUndefined | a # _ \<Rightarrow> a) s))"

text \<open>The arrow function \<open>makeTool\<close> passes to \<^verbatim>\<open>implement\<close>.\<close>

definition passToImplementation :: "bool \<Rightarrow> 's js_function \<Rightarrow> 's js_function" where
  "passToImplementation shouldOverrideArgumentWithNestedInputKey userImplementation rawFromOpenAi s =
     (if shouldOverrideArgumentWithNestedInputKey
      then (case member_access rawFromOpenAi ''input'' of
              Inl e \<Rightarrow> (Inl e, s)
            | Inr argToPassToImplementation \<Rightarrow> userImplementation argToPassToImplementation s)
      else userImplementation rawFromOpenAi s)"

definition makeTool :: "zod_function \<Rightarrow> 's js_function \<Rightarrow> js_error + 's tool" where
  "makeTool fnSchema userImplementation =
     (if \<not> length (parameters fnSchema) \<le> 1
      then Inl (InvariantFailed zero_or_one_argument_message)
      else
        (let argumentType = (case parameters fnSchema of [] \<Rightarrow> None | item # _ \<Rightarrow> item);
             shouldOverrideArgumentWithNestedInputKey =
               (case argumentType of None \<Rightarrow> False | Some t \<Rightarrow> typeName t \<noteq> ''ZodObject'');
             overriddenArgumentType =
               (if shouldOverrideArgumentWithNestedInputKey
                then map_option (z_object1 ''input'') argumentType
                else argumentType);
             overriddenFunctionSchema = args1 fnSchema overriddenArgumentType
         in Inr \<lparr>zodFunctionSchema = overriddenFunctionSchema,
                 implementation =
                   implement (parameters overriddenFunctionSchema) (returnType fnSchema)
                     (passToImplementation shouldOverrideArgumentWithNestedInputKey
                        userImplementation)\<rparr>))"

text \<open>
  The string \<open>handleToolCalls\<close> makes of a call's result. \<open>None\<close> is \<^verbatim>\<open>undefined\<close>, which
  is what \<^verbatim>\<open>JSON.stringify(undefined)\<close> returns.
\<close>

definition callResultAsString :: "js \<Rightarrow> string option" where
  "callResultAsString callResult =
     (case callResult of
        JStr str \<Rightarrow> Some str
      | JNum n \<Rightarrow> Some (number_toString n)
      | _ \<Rightarrow> JSON_stringify callResult)"

text \<open>
  \<^verbatim>\<open>tools[name]\<close>. The registry is an object that inherits from \<^verbatim>\<open>Object.prototype\<close>: for a
  name that is not a key of its own, the read finds what the prototype has under that
  name, and \<^verbatim>\<open>undefined\<close> only when the prototype has nothing either.
\<close>

definition Object_prototype_keys :: "string list" where
  "Object_prototype_keys =
     [''constructor'', ''__defineGetter__'', ''__defineSetter__'', ''hasOwnProperty'',
      ''__lookupGetter__'', ''__lookupSetter__'', ''isPrototypeOf'', ''propertyIsEnumerable'',
      ''toString'', ''valueOf'', ''__proto__'', ''toLocaleString'']"

datatype 's looked_up = OwnTool "'s tool" | Inherited | Absent

definition lookup_tool :: "'s ToolRecord \<Rightarrow> string \<Rightarrow> 's looked_up" where
  "lookup_tool tools name =
     (case map_of tools name of
        Some tool \<Rightarrow> OwnTool tool
      | None \<Rightarrow> if name \<in> set Object_prototype_keys then Inherited else Absent)"

text \<open>
  The async callback of \<open>handleToolCalls\<close> for one call. Reading \<^verbatim>\<open>implementation\<close> of
  \<^verbatim>\<open>undefined\<close> throws before the arguments are parsed. What the prototype has under a
  name is an object with no \<^verbatim>\<open>implementation\<close>: the arguments are parsed, and the call of
  \<^verbatim>\<open>undefined\<close> throws after that. The result is \<open>None\<close> when the model has no answer for the
  text of the arguments.
\<close>

definition handleToolCall ::
  "'s ToolRecord \<Rightarrow> tool_call \<Rightarrow> 's \<Rightarrow> ((js_error + tool_message) \<times> 's) option" where
  "handleToolCall tools call s =
     (let name = call_name (call_function call);
          toolCallArguments = call_arguments (call_function call)
      in case lookup_tool tools name of
           Absent \<Rightarrow> Some (Inl (TypeError ''Cannot read properties of undefined''), s)
         | Inherited \<Rightarrow>
            (case JSON_parse toolCallArguments of
               None \<Rightarrow> None
             | Some (Inl e) \<Rightarrow> Some (Inl e, s)
             | Some (Inr arg) \<Rightarrow>
                Some (Inl (TypeError ''tool.implementation is not a function''), s))
         | OwnTool tool \<Rightarrow>
            (case JSON_parse toolCallArguments of
               None \<Rightarrow> None
             | Some (Inl e) \<Rightarrow> Some (Inl e, s)
             | Some (Inr arg) \<Rightarrow>
                (case implementation tool arg s of
                   (Inl e, s') \<Rightarrow> Some (Inl e, s')
                 | (Inr callResult, s') \<Rightarrow>
                    Some (Inr \<lparr>role = ''tool'',
                               tool_call_id = call_id call,
                               msg_name = name,
                               content = callResultAsString callResult\<rparr>, s'))))"

text \<open>
  \<^verbatim>\<open>toolCalls.map(async ...)\<close> starts every callback in the order of the list, each on the
  state the one before left, whether or not an earlier one has thrown.
\<close>

fun start_calls ::
  "'s ToolRecord \<Rightarrow> tool_call list \<Rightarrow> 's \<Rightarrow> ((js_error + tool_message) list \<times> 's) option" where
  "start_calls tools [] s = Some ([], s)"
| "start_calls tools (call # calls) s =
     (case handleToolCall tools call s of
        None \<Rightarrow> None
      | Some (outcome, s') \<Rightarrow>
          (case start_calls tools calls s' of
             None \<Rightarrow> None
           | Some (outcomes, s'') \<Rightarrow> Some (outcome # outcomes, s'')))"

text \<open>
  \<^verbatim>\<open>Promise.all\<close> resolves with the results in the order of the list when every promise
  has resolved, and rejects with the first rejection in time when one has rejected. The
  time the implementations take is the parameter \<open>settled\<close>: the positions of the promises
  in the order in which they settle (a position the list does not name settles after
  those it names, in the order of the batch).
\<close>

definition rejections :: "nat list \<Rightarrow> (js_error + 'a) list \<Rightarrow> js_error list" where
  "rejections positions outcomes =
     concat (map (\<lambda>i. if i < length outcomes
                       then (case outcomes ! i of Inl e \<Rightarrow> [e] | Inr x \<Rightarrow> [])
                       else []) positions)"

definition resolutions :: "(js_error + 'a) list \<Rightarrow> 'a list" where
  "resolutions outcomes = concat (map (\<lambda>outcome. case outcome of Inl e \<Rightarrow> [] | Inr x \<Rightarrow> [x]) outcomes)"

definition Promise_all :: "nat list \<Rightarrow> (js_error + 'a) list \<Rightarrow> js_error + 'a list" where
  "Promise_all settled outcomes =
     (case rejections settled outcomes @ rejections [0..<length outcomes] outcomes of
        e # _ \<Rightarrow> Inl e
      | [] \<Rightarrow> Inr (resolutions outcomes))"

definition handleToolCalls ::
  "nat list \<Rightarrow> 's ToolRecord \<Rightarrow> tool_call list \<Rightarrow> 's \<Rightarrow> ((js_error + tool_message list) \<times> 's) option" where
  "handleToolCalls settled tools toolCalls s =
     (case start_calls tools toolCalls s of
        None \<Rightarrow> None
      | Some (outcomes, s') \<Rightarrow> Some (Promise_all settled outcomes, s'))"

section \<open>JSON Schema validation\<close>




section \<open>The tools of the scenarios\<close>

text \<open>
  \<^verbatim>\<open>getPalindrome\<close> of the tests: a string argument, a string result, and the
  implementation \<^verbatim>\<open>input.split("").reverse().join("")\<close>, which throws a \<^verbatim>\<open>TypeError\<close> on a
  value that has no \<^verbatim>\<open>split\<close>.
\<close>

definition reverseString :: "'s js_function" where
  "reverseString input s =
     (case input of
        JStr str \<Rightarrow> (Inr (JStr (rev str)), s)
      | _ \<Rightarrow> (Inl (TypeError ''input.split is not a function''), s))"

definition palindrome_schema :: zod_function where
  "palindrome_schema =
     \<lparr>parameters = [Some ZodString], returnType = ZodString,
      description = Some ''Returns the palindrome of the input string''\<rparr>"

definition getPalindrome :: "'s tool" where
  "getPalindrome = projr (makeTool palindrome_schema reverseString)"

text \<open>
  A tool with no argument that looks the temperature up and returns
  \<^verbatim>\<open>{temperature: number, description: string}\<close>.
\<close>

definition currentWeather :: "'s js_function" where
  "currentWeather arg s =
     (Inr (JObj [(''temperature'', JNum (js_int 72)), (''description'', JStr ''Sunny'')]), s)"

definition weather_schema :: zod_function where
  "weather_schema =
     \<lparr>parameters = [],
      returnType = ZodObject [(''temperature'', ZodNumber), (''description'', ZodString)],
      description = Some ''temperature lookup''\<rparr>"

definition getWeather :: "'s tool" where
  "getWeather = projr (makeTool weather_schema currentWeather)"

text \<open>
  A tool declared with neither argument nor return type, and an implementation that
  counts its runs in the state and returns \<open>result\<close>.
\<close>

definition counting :: "js \<Rightarrow> nat js_function" where
  "counting result arg runs = (Inr result, Suc runs)"

definition undeclared_schema :: zod_function where
  "undeclared_schema =
     \<lparr>parameters = [], returnType = ZodUnknown, description = Some ''Does something''\<rparr>"

definition undeclared :: "nat tool" where
  "undeclared = projr (makeTool undeclared_schema (counting JNull))"

text \<open>The palindrome tool with an implementation that counts its runs.\<close>

definition counted :: "nat tool" where
  "counted = projr (makeTool palindrome_schema (counting (JStr ''done'')))"

text \<open>A tool with no argument that returns a number.\<close>

definition answer :: "nat tool" where
  "answer = projr (makeTool \<lparr>parameters = [], returnType = ZodNumber,
                              description = Some ''The answer''\<rparr> (counting (JNum (js_int (- 42)))))"

text \<open>
  A tool with no argument whose implementation throws the \<^verbatim>\<open>TypeError\<close> of reading a
  property of \<^verbatim>\<open>undefined\<close>.
\<close>

definition failing :: "'s js_function" where
  "failing arg s = (Inl (TypeError ''Cannot read properties of undefined''), s)"

definition broken :: "'s tool" where
  "broken = projr (makeTool \<lparr>parameters = [], returnType = ZodString,
                              description = Some ''Fails''\<rparr> failing)"

text \<open>
  A tool whose argument is \<^verbatim>\<open>z.object({p: z.object({a: z.string()})})\<close>, with an
  implementation that counts its runs.
\<close>

definition nested_schema :: zod_function where
  "nested_schema =
     \<lparr>parameters = [Some (ZodObject [(''p'', ZodObject [(''a'', ZodString)])])],
      returnType = ZodString, description = Some ''Takes a nested object''\<rparr>"

definition nested :: "nat tool" where
  "nested = projr (makeTool nested_schema (counting (JStr ''done'')))"

section \<open>Decimal text\<close>

text \<open>A string of decimal digits, and the number it denotes.\<close>

definition is_decimal :: "string \<Rightarrow> bool" where
  "is_decimal ds = (ds \<noteq> [] \<and> list_all (\<lambda>c. digit_value c \<noteq> None) ds)"

definition decimal_value :: "string \<Rightarrow> int" where
  "decimal_value ds = foldl (\<lambda>acc c. 10 * acc + (int (of_char c) - 48)) 0 ds"

section \<open>Properties of the schema trimmer\<close>

lemma has_key_Nil: "has_key k [] = False"
  by (simp add: has_key_def)

lemma has_key_Cons: "has_key k (entry # obj) = (k = fst entry \<or> has_key k obj)"
  by (auto simp: has_key_def)

lemma get_prop_filter:
  "P k \<Longrightarrow> get_prop (filter (\<lambda>(k', v). P k') obj) k = get_prop obj k"
  by (induction obj) (auto simp: get_prop_def)

lemma has_key_filter:
  "has_key k (filter (\<lambda>(k', v). P k') obj) = (P k \<and> has_key k obj)"
  by (induction obj) (auto simp: has_key_def)

lemma trimGeneratedJsonSchema_fails:
  "\<not> has_key ''type'' schema \<Longrightarrow>
   trimGeneratedJsonSchema schema =
     Inl (InvariantFailed not_convertible_message)"
  by (simp add: trimGeneratedJsonSchema_def has_key_filter)

lemma trimGeneratedJsonSchema_returns:
  "has_key ''type'' schema \<Longrightarrow>
   trimGeneratedJsonSchema schema =
     Inr (if has_key ''properties'' schema
          then [(''type'', get_prop schema ''type''),
                (''properties'', get_prop schema ''properties''),
                (''required'', get_prop schema ''required''),
                (''description'', get_prop schema ''description'')]
          else [(''type'', get_prop schema ''type''),
                (''description'', get_prop schema ''description'')])"
  by (simp add: trimGeneratedJsonSchema_def has_key_filter get_prop_filter)

text \<open>
  Claim C8. When the generated document has a \<^verbatim>\<open>type\<close> key, \<open>trimGeneratedJsonSchema\<close>
  returns an object whose keys are among \<^verbatim>\<open>type\<close>, \<^verbatim>\<open>properties\<close>, \<^verbatim>\<open>required\<close> and
  \<^verbatim>\<open>description\<close>, each holding what the document holds under that key; the \<^verbatim>\<open>$schema\<close>
  tag and the \<^verbatim>\<open>definitions\<close> table are not among them. When the document has no
  \<^verbatim>\<open>type\<close> key, the invariant fails. The function threads no state and reads nothing but
  its argument: it is a function of the document alone.
\<close>

theorem trimGeneratedJsonSchema_only_wire_keys:
  "(has_key ''type'' schema \<longrightarrow>
      (\<exists>trimmed. trimGeneratedJsonSchema schema = Inr trimmed
         \<and> set (map fst trimmed) \<subseteq> {''type'', ''properties'', ''required'', ''description''}
         \<and> has_key ''type'' trimmed
         \<and> \<not> has_key ''$schema'' trimmed
         \<and> \<not> has_key ''definitions'' trimmed
         \<and> (\<forall>k \<in> set (map fst trimmed). get_prop trimmed k = get_prop schema k)))
   \<and> (\<not> has_key ''type'' schema \<longrightarrow>
      trimGeneratedJsonSchema schema =
        Inl (InvariantFailed not_convertible_message))"
proof (intro conjI impI)
  assume t: "has_key ''type'' schema"
  show "\<exists>trimmed. trimGeneratedJsonSchema schema = Inr trimmed
         \<and> set (map fst trimmed) \<subseteq> {''type'', ''properties'', ''required'', ''description''}
         \<and> has_key ''type'' trimmed
         \<and> \<not> has_key ''$schema'' trimmed
         \<and> \<not> has_key ''definitions'' trimmed
         \<and> (\<forall>k \<in> set (map fst trimmed). get_prop trimmed k = get_prop schema k)"
    by (cases "has_key ''properties'' schema")
       (simp_all add: trimGeneratedJsonSchema_returns [OF t] has_key_def get_prop_def)
next
  assume "\<not> has_key ''type'' schema"
  then show "trimGeneratedJsonSchema schema =
        Inl (InvariantFailed not_convertible_message)"
    by (rule trimGeneratedJsonSchema_fails)
qed

theorem trimGeneratedJsonSchema_only_wire_keys_witness:
  "has_key ''type'' (zodToJsonSchema (ZodObject [(''result'', ZodString)]))
   \<and> trimGeneratedJsonSchema (zodToJsonSchema (ZodObject [(''result'', ZodString)])) =
       Inr [(''type'', JStr ''object''),
            (''properties'', JObj [(''result'', JObj [(''type'', JStr ''string'')])]),
            (''required'', JArr [JStr ''result'']),
            (''description'', JUndefined)]
   \<and> \<not> has_key ''type'' (zodToJsonSchema ZodUnknown)
   \<and> trimGeneratedJsonSchema (zodToJsonSchema ZodUnknown) =
       Inl (InvariantFailed not_convertible_message)"
  using trimGeneratedJsonSchema_only_wire_keys [of "zodToJsonSchema (ZodObject [(''result'', ZodString)])"]
    trimGeneratedJsonSchema_only_wire_keys [of "zodToJsonSchema ZodUnknown"]
  by (simp add: zodToJsonSchema_def isOptional_def safeParse_def has_key_def
      trimGeneratedJsonSchema_def get_prop_def)

section \<open>Properties of parsing\<close>

lemma merge_results_same_outcome:
  "list_all2 same_outcome rs rs' \<Longrightarrow> same_outcome (merge_results rs) (merge_results rs')"
  by (induction rs rs' rule: list_all2_induct)
     (auto simp: same_outcome_def split: sum.splits)

lemma zparse_path:
  "same_outcome (zparse t p v) (zparse t q v)"
proof (induction t p v arbitrary: q rule: zparse.induct)
  case (5 t path v)
  show ?case
  proof (cases v)
    case (JArr xs)
    have "list_all2 same_outcome
            (map (\<lambda>(i, x). zparse t (path @ [Index i]) x) (enumerate 0 xs))
            (map (\<lambda>(i, x). zparse t (q @ [Index i]) x) (enumerate 0 xs))"
      unfolding list_all2_map1 list_all2_map2
      by (rule list_all2_same [THEN iffD2]) (auto intro: "5.IH" [OF JArr])
    from merge_results_same_outcome [OF this] show ?thesis
      using JArr by (auto simp: same_outcome_def split: sum.splits)
  qed (simp_all add: same_outcome_def)
next
  case (6 shape path v)
  show ?case
  proof (cases v)
    case (JObj obj)
    let ?f = "\<lambda>p (k, t). case zparse t (p @ [Key k]) (get_prop obj k) of
                                    Inl es \<Rightarrow> Inl es
                                  | Inr d \<Rightarrow> Inr (k, has_key k obj, d)"
    have "list_all2 same_outcome (map (?f path) shape) (map (?f q) shape)"
      unfolding list_all2_map1 list_all2_map2
    proof (rule list_all2_same [THEN iffD2], rule ballI)
      fix kt assume mem: "kt \<in> set shape"
      obtain k t where kt_eq: "kt = (k, t)" by (cases kt)
      from mem kt_eq have kt: "(k, t) \<in> set shape" by simp
      have "same_outcome (zparse t (path @ [Key k]) (get_prop obj k))
              (zparse t (q @ [Key k]) (get_prop obj k))"
        by (rule "6.IH" [OF JObj kt refl])
      then show "same_outcome (?f path kt) (?f q kt)"
        by (auto simp: kt_eq same_outcome_def split: sum.splits)
    qed
    from merge_results_same_outcome [OF this] show ?thesis
      using JObj by (auto simp: same_outcome_def split: sum.splits)
  qed (simp_all add: same_outcome_def)
qed (auto simp: same_outcome_def split: js.splits)

lemma zparse_Inr_path: "zparse t p v = Inr d \<Longrightarrow> zparse t q v = Inr d"
  using zparse_path [of t p v q] by (simp add: same_outcome_def)


lemma merge_results_map_Inr: "merge_results (map Inr ys) = Inr ys"
  by (induction ys) simp_all

lemma merge_results_Inr_D: "merge_results rs = Inr ys \<Longrightarrow> rs = map Inr ys"
  by (induction rs arbitrary: ys) (auto split: sum.splits)

lemma merge_results_Inr: "merge_results rs = Inr ys \<longleftrightarrow> rs = map Inr ys"
  using merge_results_map_Inr merge_results_Inr_D by blast

lemma zparse_object_free:
  "object_free t \<Longrightarrow> zparse t p v = Inr d \<Longrightarrow> d = v"
proof (induction t arbitrary: p v d)
  case (ZodArray t)
  from ZodArray.prems(2) obtain xs ys where v: "v = JArr xs" and d: "d = JArr ys"
    and m: "map (\<lambda>(i, x). zparse t (p @ [Index i]) x) (enumerate 0 xs) = map Inr ys"
    by (cases v) (auto split: sum.splits simp: merge_results_Inr)
  from m have len: "length ys = length xs"
    by (metis length_map length_enumerate)
  have "ys = xs"
  proof (rule nth_equalityI [OF len])
    fix i assume i: "i < length ys"
    with len m have "zparse t (p @ [Index i]) (xs ! i) = Inr (ys ! i)"
      by (metis (no_types, lifting) add_0 case_prod_conv length_enumerate nth_enumerate_eq nth_map)
    with ZodArray.IH [of "p @ [Index i]" "xs ! i" "ys ! i"] ZodArray.prems(1)
    show "ys ! i = xs ! i" by simp
  qed
  with v d show ?case by simp
qed (auto split: js.splits)


lemma map_Inr_determined:
  assumes "map f xs = map Inr ys" and "\<And>x y. x \<in> set xs \<Longrightarrow> f x = Inr y \<Longrightarrow> y = h x"
  shows "ys = map h xs"
  using assms by (induction xs arbitrary: ys) auto

lemma map_enumerate_snd: "map (\<lambda>(i, x). f x) (enumerate n xs) = map f xs"
  by (induction xs arbitrary: n) simp_all

lemma zparse_declared_part:
  "zparse t p v = Inr d \<Longrightarrow> d = declared_part t v"
proof (induction t p v arbitrary: d rule: zparse.induct)
  case (5 t path v)
  from "5.prems" obtain xs ys where v: "v = JArr xs" and d: "d = JArr ys"
    and m: "map (\<lambda>(i, x). zparse t (path @ [Index i]) x) (enumerate 0 xs) = map Inr ys"
    by (cases v) (auto split: sum.splits simp: merge_results_Inr)
  have "ys = map (\<lambda>(i, x). declared_part t x) (enumerate 0 xs)"
  proof (rule map_Inr_determined [OF m])
    fix ix y
    assume mem: "ix \<in> set (enumerate 0 xs)"
      and r: "(case ix of (i, x) \<Rightarrow> zparse t (path @ [Index i]) x) = Inr y"
    obtain i x where ix: "ix = (i, x)" by (cases ix)
    from r ix have "zparse t (path @ [Index i]) x = Inr y" by simp
    with "5.IH" [OF v mem ix [symmetric]] have "y = declared_part t x" .
    with ix show "y = (case ix of (i, x) \<Rightarrow> declared_part t x)" by simp
  qed
  then have "ys = map (declared_part t) xs"
    by (simp only: map_enumerate_snd)
  with v d show ?case by simp
next
  case (6 shape path v)
  let ?f = "\<lambda>(k, t). case zparse t (path @ [Key k]) (get_prop obj k) of
                                    Inl es \<Rightarrow> Inl es
                                  | Inr d \<Rightarrow> Inr (k, has_key k obj, d)"
  from "6.prems" obtain obj pairs where v: "v = JObj obj" and d: "d = mergeObjectSync pairs"
    and m: "map (\<lambda>(k, t). case zparse t (path @ [Key k]) (get_prop obj k) of
                                    Inl es \<Rightarrow> Inl es
                                  | Inr d \<Rightarrow> Inr (k, has_key k obj, d)) shape = map Inr pairs"
    by (cases v) (auto split: sum.splits simp: merge_results_Inr)
  have "pairs = map (\<lambda>(k, t). (k, has_key k obj, declared_part t (get_prop obj k))) shape"
  proof (rule map_Inr_determined [OF m])
    fix kt y
    assume mem: "kt \<in> set shape"
      and r: "(case kt of (k, t) \<Rightarrow> case zparse t (path @ [Key k]) (get_prop obj k) of
                                    Inl es \<Rightarrow> Inl es
                                  | Inr d \<Rightarrow> Inr (k, has_key k obj, d)) = Inr y"
    obtain k t where kt: "kt = (k, t)" by (cases kt)
    from r kt obtain d' where p: "zparse t (path @ [Key k]) (get_prop obj k) = Inr d'"
      and y: "y = (k, has_key k obj, d')"
      by (auto split: sum.splits)
    from "6.IH" [OF v mem kt [symmetric] p] have "d' = declared_part t (get_prop obj k)" .
    with y kt show "y = (case kt of (k, t) \<Rightarrow> (k, has_key k obj, declared_part t (get_prop obj k)))"
      by simp
  qed
  with v d show ?case
    by (simp add: mergeObjectSync_def filter_map comp_def case_prod_unfold disj_commute)
qed (auto split: js.splits)

lemma declared_part_object_free: "object_free t \<Longrightarrow> declared_part t v = v"
proof (induction t arbitrary: v)
  case (ZodArray t)
  then show ?case by (cases v) (simp_all add: map_idI)
qed simp_all

section \<open>Properties of \<open>validateFunction\<close>\<close>

lemma typeName_ZodObject: "typeName t = ''ZodObject'' \<longleftrightarrow> (\<exists>shape. t = ZodObject shape)"
  by (cases t) simp_all

lemma typeName_ZodUnknown: "typeName t = ''ZodUnknown'' \<longleftrightarrow> t = ZodUnknown"
  by (cases t) simp_all

lemma safeParse_wrapped:
  assumes "safeParse t v = Inr d" and "k \<noteq> ''__proto__''"
  shows "safeParse (z_object1 k t) (JObj [(k, v)]) = Inr (JObj [(k, d)])"
proof -
  from assms(1) have "zparse t [Key k] v = Inr d"
    unfolding safeParse_def by (rule zparse_Inr_path)
  with assms(2) show ?thesis
    by (simp add: safeParse_def z_object1_def get_prop_def has_key_def mergeObjectSync_def)
qed

lemma validateFunction_returns:
  assumes "validateFunction fn = Inr c"
  obtains a d inp outp where
    "parameters fn = [Some a]" "description fn = Some d"
    "typeName (returnType fn) \<noteq> ''ZodUnknown''"
    "trimGeneratedJsonSchema (zodToJsonSchema a) = Inr inp"
    "trimGeneratedJsonSchema
       (zodToJsonSchema (if typeName (returnType fn) = ''ZodObject'' then returnType fn
                         else z_object1 ''result'' (returnType fn))) = Inr outp"
    "c = \<lparr>inputSchema = inp, outputSchema = outp, contract_description = d,
          returnTypeWrappedInObject =
            (if typeName (returnType fn) = ''ZodObject'' then returnType fn
             else z_object1 ''result'' (returnType fn)),
          providedReturnTypeIsAnObject = (typeName (returnType fn) = ''ZodObject'')\<rparr>"
proof -
  from assms have len: "length (parameters fn) = 1"
    by (auto simp: validateFunction_def Let_def split: if_splits)
  then obtain item where ps: "parameters fn = [item]"
    by (cases "parameters fn") auto
  from assms ps obtain a where a: "item = Some a"
    by (cases item) (auto simp: validateFunction_def Let_def zodToJsonSchema_item_def
        split: if_splits option.splits)
  from assms ps a obtain d where d: "description fn = Some d"
    by (cases "description fn") (auto simp: validateFunction_def Let_def)
  from assms ps a d have unk: "typeName (returnType fn) \<noteq> ''ZodUnknown''"
    by (auto simp: validateFunction_def Let_def split: if_splits)
  from assms ps a d unk obtain inp where inp: "trimGeneratedJsonSchema (zodToJsonSchema a) = Inr inp"
    by (cases "trimGeneratedJsonSchema (zodToJsonSchema a)")
       (auto simp: validateFunction_def Let_def zodToJsonSchema_item_def)
  let ?w = "if typeName (returnType fn) = ''ZodObject'' then returnType fn
            else z_object1 ''result'' (returnType fn)"
  from assms ps a d unk inp obtain outp where
    outp: "trimGeneratedJsonSchema (zodToJsonSchema ?w) = Inr outp"
    by (cases "trimGeneratedJsonSchema (zodToJsonSchema ?w)")
       (auto simp: validateFunction_def Let_def zodToJsonSchema_item_def)
  from assms ps a d unk inp outp have
    "c = \<lparr>inputSchema = inp, outputSchema = outp, contract_description = d,
          returnTypeWrappedInObject = ?w,
          providedReturnTypeIsAnObject = (typeName (returnType fn) = ''ZodObject'')\<rparr>"
    by (auto simp: validateFunction_def Let_def zodToJsonSchema_item_def split: if_splits)
  with ps a d unk inp outp show ?thesis
    by (intro that [of a d inp outp]) simp_all
qed

text \<open>
  Claim C1, as the code has it. For a signature \<open>validateFunction\<close> accepts, with return
  type \<open>T\<close>: when \<open>T\<close> is not an object type, \<open>outputSchema\<close> is the trimmed schema of
  \<^verbatim>\<open>{result: T}\<close>, and \<open>postProcessResult\<close> applied to \<^verbatim>\<open>{result: v}\<close>, for a \<open>v\<close> that is valid
  under \<open>T\<close>, returns \<open>declared_part T v\<close>: the value \<open>v\<close> in which every object that meets an
  object schema of \<open>T\<close> is replaced by the object of the keys that schema declares, in the
  order of the schema. That is \<open>v\<close> itself when \<open>T\<close> has no object schema in it. When \<open>T\<close> is
  an object type, \<open>outputSchema\<close> is the trimmed schema of \<open>T\<close>, and \<open>postProcessResult\<close>
  applied to a \<open>v\<close> that is valid under \<open>T\<close> returns \<open>declared_part T v\<close>.
\<close>

theorem validateFunction_output_contract:
  assumes "validateFunction fn = Inr c"
  shows "(typeName (returnType fn) \<noteq> ''ZodObject'' \<longrightarrow>
            trimGeneratedJsonSchema (zodToJsonSchema (ZodObject [(''result'', returnType fn)]))
              = Inr (outputSchema c)
            \<and> (\<forall>v d. safeParse (returnType fn) v = Inr d \<longrightarrow>
                  postProcessResult c (JObj [(''result'', v)])
                    = Inr (declared_part (returnType fn) v))
            \<and> (object_free (returnType fn) \<longrightarrow>
                 (\<forall>v d. safeParse (returnType fn) v = Inr d \<longrightarrow>
                    postProcessResult c (JObj [(''result'', v)]) = Inr v)))
       \<and> (typeName (returnType fn) = ''ZodObject'' \<longrightarrow>
            trimGeneratedJsonSchema (zodToJsonSchema (returnType fn)) = Inr (outputSchema c)
            \<and> (\<forall>v d. safeParse (returnType fn) v = Inr d \<longrightarrow>
                  postProcessResult c v = Inr (declared_part (returnType fn) v)))"
proof -
  from assms obtain a d inp outp where
    out: "trimGeneratedJsonSchema
       (zodToJsonSchema (if typeName (returnType fn) = ''ZodObject'' then returnType fn
                         else z_object1 ''result'' (returnType fn))) = Inr outp"
    and c: "c = \<lparr>inputSchema = inp, outputSchema = outp, contract_description = d,
          returnTypeWrappedInObject =
            (if typeName (returnType fn) = ''ZodObject'' then returnType fn
             else z_object1 ''result'' (returnType fn)),
          providedReturnTypeIsAnObject = (typeName (returnType fn) = ''ZodObject'')\<rparr>"
    by (rule validateFunction_returns)
  have unwrap: "postProcessResult c (JObj [(''result'', v)]) = Inr d"
    if "typeName (returnType fn) \<noteq> ''ZodObject''" and "safeParse (returnType fn) v = Inr d"
    for v d
    using that c safeParse_wrapped [of "returnType fn" v d "''result''"]
    by (simp add: postProcessResult_def get_prop_def)
  have data: "d = declared_part (returnType fn) v" if "safeParse (returnType fn) v = Inr d"
    for v d
    using that unfolding safeParse_def by (rule zparse_declared_part)
  show ?thesis
  proof (intro conjI impI allI)
    assume "typeName (returnType fn) \<noteq> ''ZodObject''"
    with out c show "trimGeneratedJsonSchema (zodToJsonSchema (ZodObject [(''result'', returnType fn)]))
              = Inr (outputSchema c)"
      by (simp add: z_object1_def)
  next
    fix v d
    assume "typeName (returnType fn) \<noteq> ''ZodObject''" and "safeParse (returnType fn) v = Inr d"
    then show "postProcessResult c (JObj [(''result'', v)])
                 = Inr (declared_part (returnType fn) v)"
      using unwrap [of v d] data [of v d] by simp
  next
    fix v d
    assume n: "typeName (returnType fn) \<noteq> ''ZodObject''"
      and p: "safeParse (returnType fn) v = Inr d"
      and f: "object_free (returnType fn)"
    from f p have "d = v"
      unfolding safeParse_def by (rule zparse_object_free)
    with unwrap [OF n p] show "postProcessResult c (JObj [(''result'', v)]) = Inr v"
      by simp
  next
    assume "typeName (returnType fn) = ''ZodObject''"
    with out c show "trimGeneratedJsonSchema (zodToJsonSchema (returnType fn)) = Inr (outputSchema c)"
      by simp
  next
    fix v d
    assume "typeName (returnType fn) = ''ZodObject''" and "safeParse (returnType fn) v = Inr d"
    with c show "postProcessResult c v = Inr (declared_part (returnType fn) v)"
      using data [of v d] by (simp add: postProcessResult_def)
  qed
qed

lemmas evaluation_rules =
  validateFunction_def zodToJsonSchema_item_def zodToJsonSchema_def trimGeneratedJsonSchema_def
  postProcessResult_def safeParse_def isOptional_def z_object1_def mergeObjectSync_def
  has_key_Nil has_key_Cons get_prop_def Let_def

theorem validateFunction_output_contract_witness:
  "validateFunction
     \<lparr>parameters = [Some ZodString], returnType = ZodArray ZodString, description = Some ''d''\<rparr>
     = Inr \<lparr>inputSchema = [(''type'', JStr ''string''), (''description'', JUndefined)],
            outputSchema =
              [(''type'', JStr ''object''),
               (''properties'',
                JObj [(''result'', JObj [(''type'', JStr ''array''),
                                        (''items'', JObj [(''type'', JStr ''string'')])])]),
               (''required'', JArr [JStr ''result'']),
               (''description'', JUndefined)],
            contract_description = ''d'',
            returnTypeWrappedInObject = ZodObject [(''result'', ZodArray ZodString)],
            providedReturnTypeIsAnObject = False\<rparr>
   \<and> postProcessResult
        \<lparr>inputSchema = [(''type'', JStr ''string''), (''description'', JUndefined)],
            outputSchema =
              [(''type'', JStr ''object''),
               (''properties'',
                JObj [(''result'', JObj [(''type'', JStr ''array''),
                                        (''items'', JObj [(''type'', JStr ''string'')])])]),
               (''required'', JArr [JStr ''result'']),
               (''description'', JUndefined)],
            contract_description = ''d'',
            returnTypeWrappedInObject = ZodObject [(''result'', ZodArray ZodString)],
            providedReturnTypeIsAnObject = False\<rparr>
        (JObj [(''result'', JArr [JStr ''a'', JStr ''b''])])
     = Inr (JArr [JStr ''a'', JStr ''b''])
   \<and> validateFunction
     \<lparr>parameters = [Some ZodString], returnType = ZodObject [(''name'', ZodString)],
      description = Some ''d''\<rparr>
     = Inr \<lparr>inputSchema = [(''type'', JStr ''string''), (''description'', JUndefined)],
            outputSchema =
              [(''type'', JStr ''object''),
               (''properties'', JObj [(''name'', JObj [(''type'', JStr ''string'')])]),
               (''required'', JArr [JStr ''name'']),
               (''description'', JUndefined)],
            contract_description = ''d'',
            returnTypeWrappedInObject = ZodObject [(''name'', ZodString)],
            providedReturnTypeIsAnObject = True\<rparr>
   \<and> postProcessResult
        \<lparr>inputSchema = [(''type'', JStr ''string''), (''description'', JUndefined)],
            outputSchema =
              [(''type'', JStr ''object''),
               (''properties'', JObj [(''name'', JObj [(''type'', JStr ''string'')])]),
               (''required'', JArr [JStr ''name'']),
               (''description'', JUndefined)],
            contract_description = ''d'',
            returnTypeWrappedInObject = ZodObject [(''name'', ZodString)],
            providedReturnTypeIsAnObject = True\<rparr>
        (JObj [(''age'', JNum (js_int 7)), (''name'', JStr ''George'')])
     = Inr (JObj [(''name'', JStr ''George'')])"
proof -
  let ?f = "\<lparr>parameters = [Some ZodString], returnType = ZodArray ZodString,
             description = Some ''d''\<rparr>"
  let ?g = "\<lparr>parameters = [Some ZodString], returnType = ZodObject [(''name'', ZodString)],
             description = Some ''d''\<rparr>"
  let ?c = "\<lparr>inputSchema = [(''type'', JStr ''string''), (''description'', JUndefined)],
            outputSchema =
              [(''type'', JStr ''object''),
               (''properties'',
                JObj [(''result'', JObj [(''type'', JStr ''array''),
                                        (''items'', JObj [(''type'', JStr ''string'')])])]),
               (''required'', JArr [JStr ''result'']),
               (''description'', JUndefined)],
            contract_description = ''d'',
            returnTypeWrappedInObject = ZodObject [(''result'', ZodArray ZodString)],
            providedReturnTypeIsAnObject = False\<rparr>"
  let ?k = "\<lparr>inputSchema = [(''type'', JStr ''string''), (''description'', JUndefined)],
            outputSchema =
              [(''type'', JStr ''object''),
               (''properties'', JObj [(''name'', JObj [(''type'', JStr ''string'')])]),
               (''required'', JArr [JStr ''name'']),
               (''description'', JUndefined)],
            contract_description = ''d'',
            returnTypeWrappedInObject = ZodObject [(''name'', ZodString)],
            providedReturnTypeIsAnObject = True\<rparr>"
  have f: "validateFunction ?f = Inr ?c"
    by (simp add: evaluation_rules)
  have g: "validateFunction ?g = Inr ?k"
    by (simp add: evaluation_rules)
  have pf: "safeParse (returnType ?f) (JArr [JStr ''a'', JStr ''b'']) = Inr (JArr [JStr ''a'', JStr ''b''])"
    by (simp add: safeParse_def)
  have pg: "safeParse (returnType ?g) (JObj [(''age'', JNum (js_int 7)), (''name'', JStr ''George'')])
              = Inr (JObj [(''name'', JStr ''George'')])"
    by (simp add: evaluation_rules)
  from validateFunction_output_contract [OF f] pf
  have "postProcessResult ?c (JObj [(''result'', JArr [JStr ''a'', JStr ''b''])])
          = Inr (JArr [JStr ''a'', JStr ''b''])"
    by simp
  moreover from validateFunction_output_contract [OF g] pg
  have "postProcessResult ?k (JObj [(''age'', JNum (js_int 7)), (''name'', JStr ''George'')])
          = Inr (JObj [(''name'', JStr ''George'')])"
    by (simp add: has_key_Nil has_key_Cons get_prop_def)
  ultimately show ?thesis using f g by simp
qed

text \<open>
  The claim as the specification words it fails: a value that is valid under \<open>T\<close> is not
  always returned as it is. Under \<^verbatim>\<open>z.array(z.object({a: z.string()}))\<close> the value
  \<^verbatim>\<open>[{a: "x", b: 1}]\<close> is valid, and \<open>postProcessResult\<close> returns \<^verbatim>\<open>[{a: "x"}]\<close>.
\<close>

theorem validateFunction_output_contract_counterexample:
  "validateFunction
     \<lparr>parameters = [Some ZodString],
      returnType = ZodArray (ZodObject [(''a'', ZodString)]),
      description = Some ''d''\<rparr>
     = Inr \<lparr>inputSchema = [(''type'', JStr ''string''), (''description'', JUndefined)],
            outputSchema =
              [(''type'', JStr ''object''),
               (''properties'',
                JObj [(''result'',
                       JObj [(''type'', JStr ''array''),
                             (''items'',
                              JObj [(''type'', JStr ''object''),
                                    (''properties'', JObj [(''a'', JObj [(''type'', JStr ''string'')])]),
                                    (''required'', JArr [JStr ''a'']),
                                    (''additionalProperties'', JBool False)])])]),
               (''required'', JArr [JStr ''result'']),
               (''description'', JUndefined)],
            contract_description = ''d'',
            returnTypeWrappedInObject =
              ZodObject [(''result'', ZodArray (ZodObject [(''a'', ZodString)]))],
            providedReturnTypeIsAnObject = False\<rparr>
   \<and> typeName (ZodArray (ZodObject [(''a'', ZodString)])) \<noteq> ''ZodObject''
   \<and> safeParse (ZodArray (ZodObject [(''a'', ZodString)]))
        (JArr [JObj [(''a'', JStr ''x''), (''b'', JNum (js_int 1))]])
       = Inr (JArr [JObj [(''a'', JStr ''x'')]])
   \<and> postProcessResult
        \<lparr>inputSchema = [(''type'', JStr ''string''), (''description'', JUndefined)],
            outputSchema =
              [(''type'', JStr ''object''),
               (''properties'',
                JObj [(''result'',
                       JObj [(''type'', JStr ''array''),
                             (''items'',
                              JObj [(''type'', JStr ''object''),
                                    (''properties'', JObj [(''a'', JObj [(''type'', JStr ''string'')])]),
                                    (''required'', JArr [JStr ''a'']),
                                    (''additionalProperties'', JBool False)])])]),
               (''required'', JArr [JStr ''result'']),
               (''description'', JUndefined)],
            contract_description = ''d'',
            returnTypeWrappedInObject =
              ZodObject [(''result'', ZodArray (ZodObject [(''a'', ZodString)]))],
            providedReturnTypeIsAnObject = False\<rparr>
        (JObj [(''result'', JArr [JObj [(''a'', JStr ''x''), (''b'', JNum (js_int 1))]])])
       = Inr (JArr [JObj [(''a'', JStr ''x'')]])
   \<and> JArr [JObj [(''a'', JStr ''x'')]] \<noteq> JArr [JObj [(''a'', JStr ''x''), (''b'', JNum (js_int 1))]]"
  by (simp add: evaluation_rules)

lemma has_key_type_object: "has_key ''type'' (zodToJsonSchema (ZodObject shape))"
  by (simp add: zodToJsonSchema_def has_key_Cons)

lemma has_key_type_wrapped:
  "has_key ''type''
     (zodToJsonSchema (if typeName t = ''ZodObject'' then t else z_object1 ''result'' t))"
  by (auto simp: typeName_ZodObject z_object1_def has_key_type_object)

lemma validateFunction_accepts:
  assumes "parameters fn = [Some a]" and "has_key ''type'' (zodToJsonSchema a)"
    and "typeName (returnType fn) \<noteq> ''ZodUnknown''" and "description fn = Some d"
  shows "\<exists>c. validateFunction fn = Inr c \<and> contract_description c = d"
  using assms has_key_type_wrapped [of "returnType fn"]
  by (simp add: validateFunction_def Let_def zodToJsonSchema_item_def
      trimGeneratedJsonSchema_returns del: if_split)

text \<open>
  Claim C6, as the code has it. \<open>validateFunction\<close> fails with the argument-count
  invariant whenever the argument list does not have exactly one item, and with one of its
  three invariants whenever the return type is \<^verbatim>\<open>ZodUnknown\<close> (the return-type invariant
  when the two earlier checks pass). It returns a contract exactly when the signature has
  one argument whose generated JSON schema has a \<^verbatim>\<open>type\<close> key, a return type other than
  \<^verbatim>\<open>ZodUnknown\<close>, and a description.
\<close>

theorem validateFunction_signature_checks:
  "(length (parameters fn) \<noteq> 1 \<longrightarrow>
      validateFunction fn = Inl (InvariantFailed single_argument_message))
   \<and> (typeName (returnType fn) = ''ZodUnknown'' \<longrightarrow>
        validateFunction fn = Inl (InvariantFailed single_argument_message)
        \<or> validateFunction fn = Inl (InvariantFailed description_message)
        \<or> validateFunction fn = Inl (InvariantFailed return_type_message))
   \<and> (length (parameters fn) = 1 \<and> description fn \<noteq> None
        \<and> typeName (returnType fn) = ''ZodUnknown'' \<longrightarrow>
        validateFunction fn = Inl (InvariantFailed return_type_message))
   \<and> ((\<exists>c. validateFunction fn = Inr c) \<longleftrightarrow>
        (\<exists>a d. parameters fn = [Some a] \<and> has_key ''type'' (zodToJsonSchema a)
           \<and> typeName (returnType fn) \<noteq> ''ZodUnknown'' \<and> description fn = Some d))"
proof (intro conjI impI)
  assume "length (parameters fn) \<noteq> 1"
  then show "validateFunction fn = Inl (InvariantFailed single_argument_message)"
    by (simp add: validateFunction_def Let_def)
next
  assume "typeName (returnType fn) = ''ZodUnknown''"
  then show "validateFunction fn = Inl (InvariantFailed single_argument_message)
        \<or> validateFunction fn = Inl (InvariantFailed description_message)
        \<or> validateFunction fn = Inl (InvariantFailed return_type_message)"
    by (simp add: validateFunction_def Let_def split: option.splits)
next
  assume "length (parameters fn) = 1 \<and> description fn \<noteq> None
        \<and> typeName (returnType fn) = ''ZodUnknown''"
  then show "validateFunction fn = Inl (InvariantFailed return_type_message)"
    by (auto simp: validateFunction_def Let_def)
next
  show "(\<exists>c. validateFunction fn = Inr c) \<longleftrightarrow>
        (\<exists>a d. parameters fn = [Some a] \<and> has_key ''type'' (zodToJsonSchema a)
           \<and> typeName (returnType fn) \<noteq> ''ZodUnknown'' \<and> description fn = Some d)"
  proof
    assume "\<exists>c. validateFunction fn = Inr c"
    then obtain c where c: "validateFunction fn = Inr c" ..
    then obtain a d inp where "parameters fn = [Some a]" "description fn = Some d"
      "typeName (returnType fn) \<noteq> ''ZodUnknown''"
      "trimGeneratedJsonSchema (zodToJsonSchema a) = Inr inp"
      by (rule validateFunction_returns)
    moreover from this have "has_key ''type'' (zodToJsonSchema a)"
      using trimGeneratedJsonSchema_fails [of "zodToJsonSchema a"] by auto
    ultimately show "\<exists>a d. parameters fn = [Some a] \<and> has_key ''type'' (zodToJsonSchema a)
           \<and> typeName (returnType fn) \<noteq> ''ZodUnknown'' \<and> description fn = Some d"
      by blast
  next
    assume "\<exists>a d. parameters fn = [Some a] \<and> has_key ''type'' (zodToJsonSchema a)
           \<and> typeName (returnType fn) \<noteq> ''ZodUnknown'' \<and> description fn = Some d"
    then show "\<exists>c. validateFunction fn = Inr c"
      using validateFunction_accepts by blast
  qed
qed

theorem validateFunction_signature_checks_witness:
  "validateFunction
     \<lparr>parameters = [], returnType = ZodString, description = Some ''Sample description''\<rparr>
     = Inl (InvariantFailed single_argument_message)
   \<and> validateFunction
       \<lparr>parameters = [Some ZodString], returnType = ZodUnknown,
        description = Some ''Sample description''\<rparr>
     = Inl (InvariantFailed return_type_message)
   \<and> (\<exists>c. validateFunction
             \<lparr>parameters = [Some ZodString], returnType = ZodString,
              description = Some ''Sample description''\<rparr> = Inr c)"
  using validateFunction_signature_checks
      [of "\<lparr>parameters = [], returnType = ZodString, description = Some ''Sample description''\<rparr>"]
    validateFunction_signature_checks
      [of "\<lparr>parameters = [Some ZodString], returnType = ZodUnknown,
            description = Some ''Sample description''\<rparr>"]
    validateFunction_signature_checks
      [of "\<lparr>parameters = [Some ZodString], returnType = ZodString,
            description = Some ''Sample description''\<rparr>"]
  by (simp add: zodToJsonSchema_def has_key_Cons)

text \<open>
  The converse of the claim as the specification words it fails: a signature with exactly
  one argument, a known return type and a description is rejected when the argument is
  \<^verbatim>\<open>z.unknown()\<close>, whose generated schema has no \<^verbatim>\<open>type\<close>.
\<close>

theorem validateFunction_signature_checks_counterexample:
  "length (parameters \<lparr>parameters = [Some ZodUnknown], returnType = ZodString,
                       description = Some ''d''\<rparr>) = 1
   \<and> typeName (returnType \<lparr>parameters = [Some ZodUnknown], returnType = ZodString,
                            description = Some ''d''\<rparr>) \<noteq> ''ZodUnknown''
   \<and> description \<lparr>parameters = [Some ZodUnknown], returnType = ZodString,
                   description = Some ''d''\<rparr> = Some ''d''
   \<and> validateFunction \<lparr>parameters = [Some ZodUnknown], returnType = ZodString,
                        description = Some ''d''\<rparr>
       = Inl (InvariantFailed not_convertible_message)"
  by (simp add: evaluation_rules)

text \<open>
  Claim C7, as the code has it. A signature with no description is rejected: with the
  description invariant when it has exactly one argument, with the argument-count
  invariant when it has any other number of arguments. A contract is returned only for a
  signature that has a description, and carries it; whether a signature with a
  description is accepted does not depend on the text of the description, so the empty
  string is a description like any other.
\<close>

theorem validateFunction_description_check:
  "(description fn = None \<and> length (parameters fn) = 1 \<longrightarrow>
      validateFunction fn = Inl (InvariantFailed description_message))
   \<and> (description fn = None \<and> length (parameters fn) \<noteq> 1 \<longrightarrow>
        validateFunction fn = Inl (InvariantFailed single_argument_message))
   \<and> (\<forall>c. validateFunction fn = Inr c \<longrightarrow> description fn = Some (contract_description c))
   \<and> (\<forall>d d'. (\<exists>c. validateFunction (fn\<lparr>description := Some d\<rparr>) = Inr c) \<longleftrightarrow>
               (\<exists>c. validateFunction (fn\<lparr>description := Some d'\<rparr>) = Inr c))"
proof (intro conjI impI allI)
  assume "description fn = None \<and> length (parameters fn) = 1"
  then show "validateFunction fn = Inl (InvariantFailed description_message)"
    by (simp add: validateFunction_def Let_def)
next
  assume "description fn = None \<and> length (parameters fn) \<noteq> 1"
  then show "validateFunction fn = Inl (InvariantFailed single_argument_message)"
    by (simp add: validateFunction_def Let_def)
next
  fix c assume "validateFunction fn = Inr c"
  then obtain a d inp outp where "description fn = Some d"
    "c = \<lparr>inputSchema = inp, outputSchema = outp, contract_description = d,
          returnTypeWrappedInObject =
            (if typeName (returnType fn) = ''ZodObject'' then returnType fn
             else z_object1 ''result'' (returnType fn)),
          providedReturnTypeIsAnObject = (typeName (returnType fn) = ''ZodObject'')\<rparr>"
    by (rule validateFunction_returns)
  then show "description fn = Some (contract_description c)" by simp
next
  fix d d'
  have "(\<exists>c. validateFunction (fn\<lparr>description := Some x\<rparr>) = Inr c) \<longleftrightarrow>
        (\<exists>a. parameters fn = [Some a] \<and> has_key ''type'' (zodToJsonSchema a)
           \<and> typeName (returnType fn) \<noteq> ''ZodUnknown'')" for x
  proof
    assume "\<exists>c. validateFunction (fn\<lparr>description := Some x\<rparr>) = Inr c"
    then obtain c where c: "validateFunction (fn\<lparr>description := Some x\<rparr>) = Inr c" ..
    then obtain a inp where "parameters (fn\<lparr>description := Some x\<rparr>) = [Some a]"
      "typeName (returnType (fn\<lparr>description := Some x\<rparr>)) \<noteq> ''ZodUnknown''"
      "trimGeneratedJsonSchema (zodToJsonSchema a) = Inr inp"
      by (rule validateFunction_returns)
    moreover from this have "has_key ''type'' (zodToJsonSchema a)"
      using trimGeneratedJsonSchema_fails [of "zodToJsonSchema a"] by auto
    ultimately show "\<exists>a. parameters fn = [Some a] \<and> has_key ''type'' (zodToJsonSchema a)
           \<and> typeName (returnType fn) \<noteq> ''ZodUnknown''"
      by auto
  next
    assume "\<exists>a. parameters fn = [Some a] \<and> has_key ''type'' (zodToJsonSchema a)
           \<and> typeName (returnType fn) \<noteq> ''ZodUnknown''"
    then obtain a where "parameters (fn\<lparr>description := Some x\<rparr>) = [Some a]"
      "has_key ''type'' (zodToJsonSchema a)"
      "typeName (returnType (fn\<lparr>description := Some x\<rparr>)) \<noteq> ''ZodUnknown''"
      "description (fn\<lparr>description := Some x\<rparr>) = Some x"
      by auto
    then show "\<exists>c. validateFunction (fn\<lparr>description := Some x\<rparr>) = Inr c"
      using validateFunction_accepts by blast
  qed
  then show "(\<exists>c. validateFunction (fn\<lparr>description := Some d\<rparr>) = Inr c) \<longleftrightarrow>
               (\<exists>c. validateFunction (fn\<lparr>description := Some d'\<rparr>) = Inr c)"
    by simp
qed

theorem validateFunction_description_check_witness:
  "validateFunction
     \<lparr>parameters = [Some (ZodObject [(''a'', ZodNumber)])], returnType = ZodString,
      description = None\<rparr>
     = Inl (InvariantFailed description_message)
   \<and> validateFunction \<lparr>parameters = [], returnType = ZodString, description = None\<rparr>
     = Inl (InvariantFailed single_argument_message)"
  using validateFunction_description_check
      [of "\<lparr>parameters = [Some (ZodObject [(''a'', ZodNumber)])], returnType = ZodString,
            description = None\<rparr>"]
    validateFunction_description_check
      [of "\<lparr>parameters = [], returnType = ZodString, description = None\<rparr>"]
  by (simp add: validateFunction_def)

text \<open>
  The claim as the specification words it fails on the empty string: a signature
  described by the empty string is accepted.
\<close>

theorem validateFunction_description_check_counterexample:
  "validateFunction
     \<lparr>parameters = [Some ZodString], returnType = ZodString, description = Some []\<rparr>
     = Inr \<lparr>inputSchema = [(''type'', JStr ''string''), (''description'', JUndefined)],
            outputSchema =
              [(''type'', JStr ''object''),
               (''properties'', JObj [(''result'', JObj [(''type'', JStr ''string'')])]),
               (''required'', JArr [JStr ''result'']),
               (''description'', JUndefined)],
            contract_description = [],
            returnTypeWrappedInObject = ZodObject [(''result'', ZodString)],
            providedReturnTypeIsAnObject = False\<rparr>"
  by (simp add: evaluation_rules)

section \<open>Decimal digits\<close>

lemma digit_char_value:
  fixes d :: int
  assumes "0 \<le> d" and "d < 10"
  shows "digit_value (digit_char (nat d)) = Some d"
proof -
  from assms have "d = 0 \<or> d = 1 \<or> d = 2 \<or> d = 3 \<or> d = 4 \<or> d = 5 \<or> d = 6
    \<or> d = 7 \<or> d = 8 \<or> d = 9" by arith
  then show ?thesis
    by (elim disjE) (simp_all add: digit_char_def digit_value_def)
qed

lemma digit_char_code:
  fixes d :: int
  assumes "0 \<le> d" and "d < 10"
  shows "int (of_char (digit_char (nat d))) - 48 = d"
  using digit_char_value [OF assms] by (auto simp: digit_value_def split: if_splits)

lemma digit_char_digit: "digit_value (digit_char (nat d)) \<noteq> None" if "d < 10" for d :: int
proof (cases "0 \<le> d")
  case True
  with that show ?thesis by (simp add: digit_char_value)
next
  case False
  then have "nat d = nat 0" by simp
  then show ?thesis using digit_char_value [of 0] by simp
qed

lemma digits_is_decimal: "is_decimal (digits n)"
proof (induction n rule: digits.induct)
  case (1 n)
  show ?case
  proof (cases "n < 10")
    case True
    with digit_char_digit [of n] show ?thesis
      by (subst digits.simps) (simp add: is_decimal_def)
  next
    case False
    with 1 have "is_decimal (digits (n div 10))" by simp
    with False digit_char_digit [of "n mod 10"] show ?thesis
      by (subst digits.simps) (simp add: is_decimal_def)
  qed
qed

lemma decimal_value_snoc:
  "decimal_value (ds @ [c]) = 10 * decimal_value ds + (int (of_char c) - 48)"
  by (simp add: decimal_value_def)

lemma decimal_value_digits: "0 \<le> n \<Longrightarrow> decimal_value (digits n) = n"
proof (induction n rule: digits.induct)
  case (1 n)
  show ?case
  proof (cases "n < 10")
    case True
    with "1.prems" show ?thesis
      by (subst digits.simps) (simp add: decimal_value_def digit_char_code)
  next
    case False
    with 1 have "decimal_value (digits (n div 10)) = n div 10" by simp
    with False show ?thesis
      by (subst digits.simps) (simp add: decimal_value_snoc digit_char_code)
  qed
qed

lemma digits_times_ten: "0 < a \<Longrightarrow> digits (a * 10) = digits a @ ''0''"
  by (subst digits.simps) (simp add: digit_char_def)

lemma digits_times_power: "0 < a \<Longrightarrow> digits (a * 10 ^ j) = digits a @ replicate j (CHR ''0'')"
proof (induction j)
  case 0
  show ?case by simp
next
  case (Suc j)
  from Suc.prems have "0 < a * 10 ^ j" by simp
  have "a * 10 ^ Suc j = (a * 10 ^ j) * 10" by simp
  with digits_times_ten [OF \<open>0 < a * 10 ^ j\<close>]
  have "digits (a * 10 ^ Suc j) = digits (a * 10 ^ j) @ ''0''"
    by (simp only:)
  with Suc show ?case
    by (simp add: replicate_append_same)
qed

lemma length_digits: "a < 10 ^ j \<Longrightarrow> 0 < j \<Longrightarrow> length (digits a) \<le> j"
proof (induction a arbitrary: j rule: digits.induct)
  case (1 n)
  show ?case
  proof (cases "n < 10")
    case True
    with "1.prems" show ?thesis
      by (subst digits.simps) simp
  next
    case False
    with "1.prems" have "1 < j"
      by (cases "j = 1") auto
    then obtain i where j: "j = Suc i" and i: "0 < i"
      by (cases j) auto
    from "1.prems" j have "n div 10 < 10 ^ i"
      by simp
    from "1.IH" [OF False this i] j False show ?thesis
      by (subst digits.simps) simp
  qed
qed

text \<open>The numbers of the model and their normal form.\<close>

lemma mantissa_decimal: "in_fragment (m, e) \<Longrightarrow> mantissa (decimal m e) = m"
  by transfer simp

lemma exponent_decimal: "in_fragment (m, e) \<Longrightarrow> exponent (decimal m e) = e"
  by transfer simp

lemma in_fragment_number: "in_fragment (mantissa x, exponent x)"
  by transfer simp

lemma decimal_mantissa_exponent: "decimal (mantissa x) (exponent x) = x"
  by transfer auto

lemma strip_zeros_normal: "m \<noteq> 0 \<Longrightarrow> \<not> 10 dvd m \<Longrightarrow> strip_zeros m e = (m, e)"
  by (subst strip_zeros.simps) simp

lemma strip_zeros_power:
  "m \<noteq> 0 \<Longrightarrow> \<not> 10 dvd m \<Longrightarrow> strip_zeros (m * 10 ^ j) e = (m, e + int j)"
proof (induction j arbitrary: e)
  case 0
  then show ?case by (simp add: strip_zeros_normal)
next
  case (Suc j)
  from Suc.prems have "strip_zeros (m * 10 ^ Suc j) e = strip_zeros (m * 10 ^ j) (e + 1)"
    by (subst strip_zeros.simps) simp
  with Suc.IH [OF Suc.prems, of "e + 1"] show ?case by simp
qed

lemma strip_zeros_spec:
  assumes "n \<noteq> 0"
  obtains m j where "n = m * 10 ^ j" "m \<noteq> 0" "\<not> 10 dvd m" "strip_zeros n e = (m, e + int j)"
proof -
  have "\<exists>m j. n = m * 10 ^ j \<and> m \<noteq> 0 \<and> \<not> 10 dvd m" using assms
  proof (induction "nat \<bar>n\<bar>" arbitrary: n rule: less_induct)
    case less
    show ?case
    proof (cases "10 dvd n")
      case False
      with less.prems have "n = n * 10 ^ 0 \<and> n \<noteq> 0 \<and> \<not> 10 dvd n" by simp
      then show ?thesis by blast
    next
      case True
      then obtain q where q: "n = 10 * q" ..
      with less.prems have "q \<noteq> 0" and "nat \<bar>q\<bar> < nat \<bar>n\<bar>" by auto
      from less.hyps [OF this(2) this(1)] obtain m j where
        "q = m * 10 ^ j" "m \<noteq> 0" "\<not> 10 dvd m" by blast
      with q have "n = m * 10 ^ Suc j \<and> m \<noteq> 0 \<and> \<not> 10 dvd m" by simp
      then show ?thesis by blast
    qed
  qed
  then obtain m j where n: "n = m * 10 ^ j" and m: "m \<noteq> 0" "\<not> 10 dvd m" by blast
  from strip_zeros_power [OF m, of j e] n have "strip_zeros n e = (m, e + int j)" by simp
  with n m show ?thesis by (rule that)
qed

text \<open>
  An integer of at most 15 digits is a number of the model, and its text is its decimal
  digits, after a minus sign when it is negative.
\<close>

lemma number_toString_js_int:
  assumes "\<bar>n\<bar> < 10 ^ 15"
  shows "number_toString (js_int n) = (if n < 0 then ''-'' else []) @ digits \<bar>n\<bar>"
proof (cases "n = 0")
  case True
  have "strip_zeros 0 0 = (0, 0)" by (subst strip_zeros.simps) simp
  then have "mantissa (js_int 0) = 0"
    by (simp add: js_int_def mantissa_decimal in_fragment_def)
  moreover have "digits 0 = ''0''"
    by (subst digits.simps) (simp add: digit_char_def)
  ultimately show ?thesis using True by (simp add: number_toString_def)
next
  case False
  then obtain m j where n: "n = m * 10 ^ j" and m: "m \<noteq> 0" "\<not> 10 dvd m"
    and s: "strip_zeros n 0 = (m, 0 + int j)"
    by (rule strip_zeros_spec)
  have abs_n: "\<bar>n\<bar> = \<bar>m\<bar> * 10 ^ j"
    using n by (simp add: abs_mult)
  from m have one: "1 \<le> \<bar>m\<bar>" by simp
  have "(1::int) \<le> 10 ^ j" by simp
  with abs_n have "\<bar>m\<bar> \<le> \<bar>n\<bar>"
    by (metis abs_ge_zero mult.right_neutral mult_left_mono)
  with assms have m15: "\<bar>m\<bar> < 10 ^ 15" by simp
  from one abs_n have "(10::int) ^ j \<le> \<bar>n\<bar>"
    by (metis mult.left_neutral mult_right_mono zero_le_numeral zero_le_power)
  with assms have "(10::int) ^ j < 10 ^ 15" by simp
  then have j15: "j < 15"
    using power_less_imp_less_exp [of "10::int" j 15] by simp
  from m m15 j15 have frag: "in_fragment (m, int j)"
    by (simp add: in_fragment_def)
  from s frag have man: "mantissa (js_int n) = m" and ex: "exponent (js_int n) = int j"
    by (simp_all add: js_int_def mantissa_decimal exponent_decimal)
  from m abs_n have split: "digits \<bar>n\<bar> = digits \<bar>m\<bar> @ replicate j (CHR ''0'')"
    by (simp add: digits_times_power)
  from assms have "length (digits \<bar>n\<bar>) \<le> 15"
    by (rule length_digits) simp
  with split have "length (digits \<bar>m\<bar>) + j \<le> 15" by simp
  then have "format_decimal (digits \<bar>m\<bar>) (int j) = digits \<bar>m\<bar> @ replicate j (CHR ''0'')"
    by (simp add: format_decimal_def Let_def)
  with split have "format_decimal (digits \<bar>m\<bar>) (int j) = digits \<bar>n\<bar>"
    by simp
  moreover from n m have "n < 0 \<longleftrightarrow> m < 0"
    by (simp add: mult_less_0_iff)
  ultimately show ?thesis
    using man ex m by (simp add: number_toString_def)
qed

section \<open>Properties of dispatch\<close>

lemma handleToolCall_returns:
  assumes "map_of tools (call_name (call_function call)) = Some tool"
    and "JSON_parse (call_arguments (call_function call)) = Some (Inr arg)"
    and "implementation tool arg s = (Inr callResult, s')"
  shows "handleToolCall tools call s =
           Some (Inr \<lparr>role = ''tool'', tool_call_id = call_id call,
                      msg_name = call_name (call_function call),
                      content = callResultAsString callResult\<rparr>, s')"
  using assms by (simp add: handleToolCall_def lookup_tool_def)

lemma handleToolCall_not_own:
  assumes "map_of tools (call_name (call_function call)) = None"
  shows "handleToolCall tools call s =
           (if call_name (call_function call) \<in> set Object_prototype_keys
            then (case JSON_parse (call_arguments (call_function call)) of
                    None \<Rightarrow> None
                  | Some (Inl e) \<Rightarrow> Some (Inl e, s)
                  | Some (Inr arg) \<Rightarrow>
                      Some (Inl (TypeError ''tool.implementation is not a function''), s))
            else Some (Inl (TypeError ''Cannot read properties of undefined''), s))"
  using assms by (simp add: handleToolCall_def lookup_tool_def)

lemma handleToolCall_own:
  assumes "map_of tools (call_name (call_function call)) = Some tool"
  shows "handleToolCall tools call s =
           (case JSON_parse (call_arguments (call_function call)) of
              None \<Rightarrow> None
            | Some (Inl e) \<Rightarrow> Some (Inl e, s)
            | Some (Inr arg) \<Rightarrow>
               (case implementation tool arg s of
                  (Inl e, s') \<Rightarrow> Some (Inl e, s')
                | (Inr callResult, s') \<Rightarrow>
                   Some (Inr \<lparr>role = ''tool'',
                              tool_call_id = call_id call,
                              msg_name = call_name (call_function call),
                              content = callResultAsString callResult\<rparr>, s')))"
  using assms by (simp add: handleToolCall_def lookup_tool_def)

lemma handleToolCall_not_own_rejects:
  assumes "map_of tools (call_name (call_function call)) = None"
  shows "handleToolCall tools call s \<noteq> Some (Inr msg, s')"
  using assms
  by (auto simp: handleToolCall_not_own split: option.splits sum.splits)

lemma handleToolCall_Inr:
  assumes "handleToolCall tools call s = Some (Inr msg, s')"
  obtains tool arg callResult where
    "map_of tools (call_name (call_function call)) = Some tool"
    "JSON_parse (call_arguments (call_function call)) = Some (Inr arg)"
    "implementation tool arg s = (Inr callResult, s')"
    "msg = \<lparr>role = ''tool'', tool_call_id = call_id call,
            msg_name = call_name (call_function call),
            content = callResultAsString callResult\<rparr>"
proof -
  from assms obtain tool where t: "map_of tools (call_name (call_function call)) = Some tool"
    using handleToolCall_not_own_rejects [of tools call s msg s']
    by (cases "map_of tools (call_name (call_function call))") auto
  from assms obtain arg where
    a: "JSON_parse (call_arguments (call_function call)) = Some (Inr arg)"
    unfolding handleToolCall_own [OF t]
    by (auto split: option.splits sum.splits)
  obtain r s'' where i: "implementation tool arg s = (r, s'')"
    by (cases "implementation tool arg s")
  from assms a i obtain callResult where r: "r = Inr callResult"
    unfolding handleToolCall_own [OF t] by (cases r) auto
  from assms a i r show ?thesis
    unfolding handleToolCall_own [OF t]
    by (intro that [of tool arg callResult]) (auto simp: t)
qed

lemma handleToolCall_total:
  assumes "JSON_parse (call_arguments (call_function call)) \<noteq> None"
  shows "\<exists>outcome s'. handleToolCall tools call s = Some (outcome, s')"
proof (cases "map_of tools (call_name (call_function call))")
  case None
  with assms show ?thesis
    by (auto simp: handleToolCall_not_own split: option.splits sum.splits)
next
  case (Some tool)
  with assms show ?thesis
    by (auto simp: handleToolCall_own split: option.splits sum.splits prod.splits)
qed


lemma start_calls_total:
  assumes "\<forall>call \<in> set toolCalls. JSON_parse (call_arguments (call_function call)) \<noteq> None"
  shows "\<exists>outcomes s'. start_calls tools toolCalls s = Some (outcomes, s')"
  using assms
proof (induction toolCalls arbitrary: s)
  case Nil
  show ?case by simp
next
  case (Cons call toolCalls)
  from Cons.prems have "JSON_parse (call_arguments (call_function call)) \<noteq> None" by simp
  from handleToolCall_total [OF this, of tools s]
  obtain outcome s1 where h: "handleToolCall tools call s = Some (outcome, s1)"
    by blast
  from Cons.prems have "\<forall>c \<in> set toolCalls. JSON_parse (call_arguments (call_function c)) \<noteq> None"
    by simp
  from Cons.IH [OF this, of s1] obtain outcomes s2 where
    "start_calls tools toolCalls s1 = Some (outcomes, s2)" by blast
  with h show ?case by simp
qed

lemma start_calls_Cons:
  assumes "start_calls tools (call # toolCalls) s = Some (outcomes, s')"
  obtains outcome s1 rest where
    "handleToolCall tools call s = Some (outcome, s1)"
    "start_calls tools toolCalls s1 = Some (rest, s')"
    "outcomes = outcome # rest"
  using assms by (auto split: option.splits prod.splits)

lemma start_calls_length:
  "start_calls tools toolCalls s = Some (outcomes, s') \<Longrightarrow> length outcomes = length toolCalls"
proof (induction toolCalls arbitrary: s outcomes)
  case Nil
  then show ?case by simp
next
  case (Cons call toolCalls)
  from Cons.prems obtain outcome s1 rest where
    "start_calls tools toolCalls s1 = Some (rest, s')" "outcomes = outcome # rest"
    by (rule start_calls_Cons)
  with Cons.IH [of s1 rest] show ?case by simp
qed

lemma start_calls_nth:
  assumes "start_calls tools toolCalls s = Some (outcomes, s')" and "i < length toolCalls"
  shows "\<exists>st st'. handleToolCall tools (toolCalls ! i) st = Some (outcomes ! i, st')"
  using assms
proof (induction toolCalls arbitrary: s outcomes i)
  case Nil
  then show ?case by simp
next
  case (Cons call toolCalls)
  from Cons.prems(1) obtain outcome s1 rest where
    h: "handleToolCall tools call s = Some (outcome, s1)"
    and r: "start_calls tools toolCalls s1 = Some (rest, s')"
    and o: "outcomes = outcome # rest"
    by (rule start_calls_Cons)
  show ?case
  proof (cases i)
    case 0
    with h o show ?thesis by auto
  next
    case (Suc j)
    with Cons.prems(2) have "j < length toolCalls" by simp
    from Cons.IH [OF r this] Suc o show ?thesis by simp
  qed
qed

lemma rejections_member:
  "e \<in> set (rejections positions outcomes) \<Longrightarrow> Inl e \<in> set outcomes"
  by (auto simp: rejections_def split: if_splits sum.splits)

lemma rejections_in_order:
  "rejections [0..<length outcomes] outcomes
     = concat (map (\<lambda>outcome. case outcome of Inl e \<Rightarrow> [e] | Inr x \<Rightarrow> []) outcomes)"
proof -
  have "map (\<lambda>i. if i < length outcomes
                  then (case outcomes ! i of Inl e \<Rightarrow> [e] | Inr x \<Rightarrow> [])
                  else []) [0..<length outcomes]
        = map (\<lambda>i. (\<lambda>outcome. case outcome of Inl e \<Rightarrow> [e] | Inr x \<Rightarrow> []) (outcomes ! i))
            [0..<length outcomes]"
    by (rule map_cong) simp_all
  also have "\<dots> = map (\<lambda>outcome. case outcome of Inl e \<Rightarrow> [e] | Inr x \<Rightarrow> [])
                     (map (\<lambda>i. outcomes ! i) [0..<length outcomes])"
    by (simp only: map_map comp_def)
  also have "\<dots> = map (\<lambda>outcome. case outcome of Inl e \<Rightarrow> [e] | Inr x \<Rightarrow> []) outcomes"
    by (simp only: map_nth)
  finally show ?thesis
    by (simp only: rejections_def)
qed

lemma rejections_in_order_Nil:
  "rejections [0..<length outcomes] outcomes = [] \<longleftrightarrow> (\<forall>outcome \<in> set outcomes. \<not> isl outcome)"
  unfolding rejections_in_order by (induction outcomes) (auto split: sum.splits)

lemma resolutions_resolved:
  "\<forall>outcome \<in> set outcomes. \<not> isl outcome \<Longrightarrow> resolutions outcomes = map projr outcomes"
  unfolding resolutions_def by (induction outcomes) (auto split: sum.splits)

lemma Promise_all_resolved:
  assumes "\<forall>outcome \<in> set outcomes. \<not> isl outcome"
  shows "Promise_all settled outcomes = Inr (map projr outcomes)"
proof -
  have "rejections positions outcomes = []" for positions
  proof (rule ccontr)
    assume "rejections positions outcomes \<noteq> []"
    then obtain e where "e \<in> set (rejections positions outcomes)"
      by (cases "rejections positions outcomes") auto
    then have "Inl e \<in> set outcomes" by (rule rejections_member)
    with assms show False by auto
  qed
  then show ?thesis
    by (simp add: Promise_all_def resolutions_resolved [OF assms])
qed

lemma Promise_all_rejected:
  assumes "\<exists>outcome \<in> set outcomes. isl outcome"
  shows "\<exists>e. Promise_all settled outcomes = Inl e \<and> Inl e \<in> set outcomes"
proof -
  from assms have "rejections [0..<length outcomes] outcomes \<noteq> []"
    by (simp add: rejections_in_order_Nil)
  then obtain e es where
    l: "rejections settled outcomes @ rejections [0..<length outcomes] outcomes = e # es"
    by (cases "rejections settled outcomes @ rejections [0..<length outcomes] outcomes") auto
  then have "e \<in> set (rejections settled outcomes) \<or> e \<in> set (rejections [0..<length outcomes] outcomes)"
    by (metis Un_iff list.set_intros(1) set_append)
  then have "Inl e \<in> set outcomes"
    using rejections_member by blast
  with l show ?thesis
    by (simp add: Promise_all_def)
qed


text \<open>
  Claim C4. Every message a dispatched call produces has as its content the string made
  from the value the tool's implementation returned: the string itself when the value is
  a string; the text \<^verbatim>\<open>toString()\<close> gives when the value is a number, which for an integer
  of at most 15 digits is its decimal digits, after a minus sign when it is negative; the
  \<^verbatim>\<open>JSON.stringify\<close> text of any other value.
\<close>

theorem handleToolCall_content:
  assumes "handleToolCall tools call s = Some (Inr msg, s')"
  shows "\<exists>tool arg callResult.
           map_of tools (call_name (call_function call)) = Some tool
         \<and> JSON_parse (call_arguments (call_function call)) = Some (Inr arg)
         \<and> implementation tool arg s = (Inr callResult, s')
         \<and> (\<forall>str. callResult = JStr str \<longrightarrow> content msg = Some str)
         \<and> (\<forall>x. callResult = JNum x \<longrightarrow> content msg = Some (number_toString x))
         \<and> (\<forall>n. callResult = JNum (js_int n) \<and> \<bar>n\<bar> < 10 ^ 15 \<longrightarrow>
               (\<exists>ds. content msg = Some (if n < 0 then CHR ''-'' # ds else ds)
                     \<and> is_decimal ds \<and> decimal_value ds = \<bar>n\<bar>))
         \<and> ((\<forall>str. callResult \<noteq> JStr str) \<and> (\<forall>x. callResult \<noteq> JNum x) \<longrightarrow>
               content msg = JSON_stringify callResult)"
proof -
  from assms obtain tool arg callResult where
    t: "map_of tools (call_name (call_function call)) = Some tool"
    and a: "JSON_parse (call_arguments (call_function call)) = Some (Inr arg)"
    and i: "implementation tool arg s = (Inr callResult, s')"
    and m: "msg = \<lparr>role = ''tool'', tool_call_id = call_id call,
            msg_name = call_name (call_function call),
            content = callResultAsString callResult\<rparr>"
    by (rule handleToolCall_Inr)
  have "\<forall>str. callResult = JStr str \<longrightarrow> content msg = Some str"
    using m by (simp add: callResultAsString_def)
  moreover have num: "\<forall>x. callResult = JNum x \<longrightarrow> content msg = Some (number_toString x)"
    using m by (simp add: callResultAsString_def)
  moreover have "\<forall>n. callResult = JNum (js_int n) \<and> \<bar>n\<bar> < 10 ^ 15 \<longrightarrow>
               (\<exists>ds. content msg = Some (if n < 0 then CHR ''-'' # ds else ds)
                     \<and> is_decimal ds \<and> decimal_value ds = \<bar>n\<bar>)"
  proof (intro allI impI)
    fix n :: int
    assume n: "callResult = JNum (js_int n) \<and> \<bar>n\<bar> < 10 ^ 15"
    with num have "content msg = Some (number_toString (js_int n))" by simp
    with n have "content msg = Some (if n < 0 then CHR ''-'' # digits \<bar>n\<bar> else digits \<bar>n\<bar>)"
      by (simp add: number_toString_js_int)
    moreover have "is_decimal (digits \<bar>n\<bar>)" by (rule digits_is_decimal)
    moreover have "decimal_value (digits \<bar>n\<bar>) = \<bar>n\<bar>" by (rule decimal_value_digits) simp
    ultimately show "\<exists>ds. content msg = Some (if n < 0 then CHR ''-'' # ds else ds)
                     \<and> is_decimal ds \<and> decimal_value ds = \<bar>n\<bar>"
      by blast
  qed
  moreover have "(\<forall>str. callResult \<noteq> JStr str) \<and> (\<forall>x. callResult \<noteq> JNum x) \<longrightarrow>
               content msg = JSON_stringify callResult"
    using m by (cases callResult) (simp_all add: callResultAsString_def)
  ultimately show ?thesis using t a i by blast
qed

lemma handleToolCalls_rejects:
  assumes "call \<in> set toolCalls"
    and "\<And>st msg st'. handleToolCall tools call st \<noteq> Some (Inr msg, st')"
    and "\<forall>c \<in> set toolCalls. JSON_parse (call_arguments (call_function c)) \<noteq> None"
  shows "\<exists>e s'. handleToolCalls settled tools toolCalls s = Some (Inl e, s')"
proof -
  from start_calls_total [OF assms(3), of tools s] obtain outcomes s' where
    st: "start_calls tools toolCalls s = Some (outcomes, s')" by blast
  from assms(1) obtain i where i: "i < length toolCalls" and c: "toolCalls ! i = call"
    by (auto simp: in_set_conv_nth)
  from start_calls_nth [OF st i] c obtain st0 st1 where
    h: "handleToolCall tools call st0 = Some (outcomes ! i, st1)" by auto
  with assms(2) [of st0 _ st1] have "isl (outcomes ! i)"
    by (cases "outcomes ! i") auto
  moreover from i start_calls_length [OF st] have "outcomes ! i \<in> set outcomes" by simp
  ultimately have "\<exists>outcome \<in> set outcomes. isl outcome" by blast
  from Promise_all_rejected [OF this, of settled] obtain e where
    "Promise_all settled outcomes = Inl e" by blast
  with st show ?thesis by (simp add: handleToolCalls_def)
qed

text \<open>
  Claim C5, as the code has it. A request whose name is not a key of the registry never
  produces a message, and there is no error of its own for it. When \<^verbatim>\<open>Object.prototype\<close>
  has nothing under the name either, reading \<^verbatim>\<open>implementation\<close> of the absent tool throws
  the runtime's \<^verbatim>\<open>TypeError\<close>, before the arguments are parsed and in whatever state the
  call starts. When the name is one that \<^verbatim>\<open>Object.prototype\<close> has, the lookup finds
  something: the arguments are parsed, with a \<^verbatim>\<open>SyntaxError\<close> when they are not JSON, and
  the call of the missing \<^verbatim>\<open>implementation\<close> throws a \<^verbatim>\<open>TypeError\<close> after that. Either way
  the batch as a whole rejects, whatever the order in which its calls complete.
\<close>

theorem handleToolCalls_unknown_tool:
  assumes "call \<in> set toolCalls"
    and "map_of tools (call_name (call_function call)) = None"
  shows "(call_name (call_function call) \<notin> set Object_prototype_keys \<longrightarrow>
            (\<forall>s. handleToolCall tools call s
                   = Some (Inl (TypeError ''Cannot read properties of undefined''), s)))
       \<and> (call_name (call_function call) \<in> set Object_prototype_keys \<longrightarrow>
            (\<forall>s. handleToolCall tools call s
                   = (case JSON_parse (call_arguments (call_function call)) of
                        None \<Rightarrow> None
                      | Some (Inl e) \<Rightarrow> Some (Inl e, s)
                      | Some (Inr arg) \<Rightarrow>
                          Some (Inl (TypeError ''tool.implementation is not a function''), s))))
       \<and> (\<forall>s msg s'. handleToolCall tools call s \<noteq> Some (Inr msg, s'))
       \<and> ((\<forall>c \<in> set toolCalls. JSON_parse (call_arguments (call_function c)) \<noteq> None) \<longrightarrow>
            (\<forall>settled s. \<exists>e s'. handleToolCalls settled tools toolCalls s = Some (Inl e, s')))"
proof (intro conjI impI allI)
  fix s
  assume "call_name (call_function call) \<notin> set Object_prototype_keys"
  with assms(2) show "handleToolCall tools call s
                   = Some (Inl (TypeError ''Cannot read properties of undefined''), s)"
    by (simp add: handleToolCall_not_own)
next
  fix s
  assume "call_name (call_function call) \<in> set Object_prototype_keys"
  with assms(2) show "handleToolCall tools call s
                   = (case JSON_parse (call_arguments (call_function call)) of
                        None \<Rightarrow> None
                      | Some (Inl e) \<Rightarrow> Some (Inl e, s)
                      | Some (Inr arg) \<Rightarrow>
                          Some (Inl (TypeError ''tool.implementation is not a function''), s))"
    by (simp add: handleToolCall_not_own)
next
  fix s msg s'
  from assms(2) show "handleToolCall tools call s \<noteq> Some (Inr msg, s')"
    by (rule handleToolCall_not_own_rejects)
next
  fix settled s
  assume "\<forall>c \<in> set toolCalls. JSON_parse (call_arguments (call_function c)) \<noteq> None"
  with assms(1) handleToolCall_not_own_rejects [OF assms(2)]
  show "\<exists>e s'. handleToolCalls settled tools toolCalls s = Some (Inl e, s')"
    by (rule handleToolCalls_rejects)
qed

section \<open>Properties of JSON Schema validation\<close>














section \<open>Properties of \<open>makeTool\<close>\<close>

lemma implement_single:
  "implement [item] declaredReturn func arg s =
     (case zparse (case item of None \<Rightarrow> ZodUnknown | Some t \<Rightarrow> t) [Index 0] arg of
        Inl es \<Rightarrow> (Inl (InvalidArguments es), s)
      | Inr d \<Rightarrow> parse_returned declaredReturn (func d s))"
  by (simp add: implement_def tuple_safeParse_def tuple_item_def split: sum.splits)

lemma makeTool_returns:
  assumes "makeTool fnSchema userImplementation = Inr tool"
  shows "length (parameters fnSchema) \<le> 1"
    and "tool =
      (let argumentType = (case parameters fnSchema of [] \<Rightarrow> None | item # _ \<Rightarrow> item);
           wrap = (case argumentType of None \<Rightarrow> False | Some t \<Rightarrow> typeName t \<noteq> ''ZodObject'');
           stored = (if wrap then map_option (z_object1 ''input'') argumentType else argumentType)
       in \<lparr>zodFunctionSchema = fnSchema\<lparr>parameters := [stored]\<rparr>,
           implementation = implement [stored] (returnType fnSchema)
                              (passToImplementation wrap userImplementation)\<rparr>)"
  using assms by (auto simp: makeTool_def Let_def args1_def split: if_splits)

lemma makeTool_wrapping:
  assumes "makeTool fnSchema userImplementation = Inr tool"
    and "parameters fnSchema = [Some T]" and "typeName T \<noteq> ''ZodObject''"
  shows "tool = \<lparr>zodFunctionSchema = fnSchema\<lparr>parameters := [Some (ZodObject [(''input'', T)])]\<rparr>,
                 implementation = implement [Some (ZodObject [(''input'', T)])] (returnType fnSchema)
                                    (passToImplementation True userImplementation)\<rparr>"
  using makeTool_returns(2) [OF assms(1)] assms(2,3) by (simp add: z_object1_def Let_def)

lemma makeTool_object:
  assumes "makeTool fnSchema userImplementation = Inr tool"
    and "parameters fnSchema = [Some T]" and "typeName T = ''ZodObject''"
  shows "tool = \<lparr>zodFunctionSchema = fnSchema\<lparr>parameters := [Some T]\<rparr>,
                 implementation = implement [Some T] (returnType fnSchema)
                                    (passToImplementation False userImplementation)\<rparr>"
  using makeTool_returns(2) [OF assms(1)] assms(2,3) by (simp add: Let_def)

lemma makeTool_no_argument:
  assumes "makeTool fnSchema userImplementation = Inr tool"
    and "parameters fnSchema = [] \<or> parameters fnSchema = [None]"
  shows "tool = \<lparr>zodFunctionSchema = fnSchema\<lparr>parameters := [None]\<rparr>,
                 implementation = implement [None] (returnType fnSchema)
                                    (passToImplementation False userImplementation)\<rparr>"
  using makeTool_returns(2) [OF assms(1)] assms(2) by (auto simp: Let_def)

lemma makeTool_cases:
  assumes "makeTool fnSchema userImplementation = Inr tool"
  obtains (none) "parameters fnSchema = [] \<or> parameters fnSchema = [None]"
  | (wrapped) T where "parameters fnSchema = [Some T]" "typeName T \<noteq> ''ZodObject''"
  | (object) T where "parameters fnSchema = [Some T]" "typeName T = ''ZodObject''"
proof -
  from makeTool_returns(1) [OF assms] have "length (parameters fnSchema) \<le> 1" .
  then consider "parameters fnSchema = []" | item where "parameters fnSchema = [item]"
    by (cases "parameters fnSchema") (auto simp: length_Suc_conv)
  then show ?thesis
  proof cases
    case 1
    then show ?thesis using none by simp
  next
    case (2 item)
    then show ?thesis using none wrapped object by (cases item) auto
  qed
qed

lemma member_access_mergeObjectSync:
  "k \<noteq> ''__proto__'' \<Longrightarrow> member_access (mergeObjectSync [(k, alwaysSet, d)]) k = Inr d"
  by (simp add: mergeObjectSync_def get_prop_def)

lemma wrapped_call:
  assumes "safeParse T (get_prop obj ''input'') = Inr d"
  shows "implement [Some (ZodObject [(''input'', T)])] R (passToImplementation True f) (JObj obj) s
           = parse_returned R (f d s)"
proof -
  from assms have "zparse T [Index 0, Key ''input''] (get_prop obj ''input'') = Inr d"
    unfolding safeParse_def by (rule zparse_Inr_path)
  then show ?thesis
    by (simp add: implement_single passToImplementation_def member_access_mergeObjectSync)
qed





lemma getPalindrome_tool:
  "getPalindrome =
     \<lparr>zodFunctionSchema =
        \<lparr>parameters = [Some (ZodObject [(''input'', ZodString)])], returnType = ZodString,
         description = Some ''Returns the palindrome of the input string''\<rparr>,
      implementation = implement [Some (ZodObject [(''input'', ZodString)])] ZodString
                         (passToImplementation True reverseString)\<rparr>"
  by (simp add: getPalindrome_def makeTool_def palindrome_schema_def args1_def z_object1_def Let_def)

lemma makeTool_getPalindrome: "makeTool palindrome_schema reverseString = Inr getPalindrome"
  by (simp add: getPalindrome_def makeTool_def palindrome_schema_def Let_def)

lemma parse_hello:
  \<open>JSON_parse ''{"input":"hello"}'' = Some (Inr (JObj [(''input'', JStr ''hello'')]))\<close>
  by code_simp




lemma parse_not_json: \<open>JSON_parse ''not json'' = Some (Inl SyntaxError)\<close>
  by code_simp

lemma parse_empty_object: \<open>JSON_parse ''{}'' = Some (Inr (JObj []))\<close>
  by code_simp

lemma getPalindrome_call:
  "implementation getPalindrome (JObj [(''input'', JStr str)]) s = (Inr (JStr (rev str)), s)"
proof -
  have "safeParse ZodString (get_prop [(''input'', JStr str)] ''input'') = Inr (JStr str)"
    by (simp add: safeParse_def get_prop_def)
  then show ?thesis
    by (simp add: getPalindrome_tool wrapped_call reverseString_def parse_returned_def
        maybeAZodPromise_safeParse_def safeParse_def)
qed

lemma dispatch_reverse:
  \<open>handleToolCall [(''reverse'', getPalindrome)]
     \<lparr>call_id = ''1'',
      call_function = \<lparr>call_name = ''reverse'', call_arguments = ''{"input":"hello"}''\<rparr>\<rparr> s
   = Some (Inr \<lparr>role = ''tool'', tool_call_id = ''1'', msg_name = ''reverse'',
                content = Some ''olleh''\<rparr>, s)\<close>
  by (simp add: handleToolCall_def lookup_tool_def parse_hello getPalindrome_call
      callResultAsString_def)

lemma parse_returned_Inr:
  "parse_returned R (Inr r, s') =
     (case safeParse R r of
        Inl es \<Rightarrow> (Inl (InvalidReturnType [InvalidUnion []]), s')
      | Inr d \<Rightarrow> (Inr d, s'))"
  by (simp add: parse_returned_def maybeAZodPromise_safeParse_def split: sum.splits)

lemma parse_returned_Inl: "parse_returned R (Inl e, s') = (Inl e, s')"
  by (simp add: parse_returned_def)








lemma makeTool_counted: "makeTool palindrome_schema (counting (JStr ''done'')) = Inr counted"
  by (simp add: counted_def makeTool_def palindrome_schema_def Let_def)

text \<open>
  Claim C2. For a tool built by \<open>makeTool\<close> from a signature whose single argument type \<open>T\<close>
  is not an object type, the stored argument schema is \<^verbatim>\<open>z.object({input: T})\<close>, and a call
  with an object whose \<^verbatim>\<open>input\<close> property is valid under \<open>T\<close> applies the user's
  implementation to the validated value of that property, not to the object. The request
  with id \<^verbatim>\<open>1\<close>, name \<^verbatim>\<open>reverse\<close> and arguments \<^verbatim>\<open>{"input":"hello"}\<close>, against the tool that
  reverses a string, yields the one message with \<^verbatim>\<open>tool_call_id\<close> \<^verbatim>\<open>1\<close>, name \<^verbatim>\<open>reverse\<close> and
  content \<^verbatim>\<open>olleh\<close>, in the state the call started in and whatever the order in which
  calls complete.
\<close>

theorem makeTool_input_wrapper:
  \<open>(\<forall>fnSchema userImplementation (tool :: 's tool) T.
       makeTool fnSchema userImplementation = Inr tool
       \<and> parameters fnSchema = [Some T] \<and> typeName T \<noteq> ''ZodObject'' \<longrightarrow>
       parameters (zodFunctionSchema tool) = [Some (ZodObject [(''input'', T)])]
       \<and> (\<forall>obj d s. safeParse T (get_prop obj ''input'') = Inr d \<longrightarrow>
             implementation tool (JObj obj) s
               = parse_returned (returnType fnSchema) (userImplementation d s)))
   \<and> makeTool palindrome_schema reverseString = Inr (getPalindrome :: 's tool)
   \<and> (\<forall>settled (s :: 's).
         handleToolCalls settled [(''reverse'', getPalindrome)]
           [\<lparr>call_id = ''1'',
             call_function = \<lparr>call_name = ''reverse'', call_arguments = ''{"input":"hello"}''\<rparr>\<rparr>] s
         = Some (Inr [\<lparr>role = ''tool'', tool_call_id = ''1'', msg_name = ''reverse'',
                       content = Some ''olleh''\<rparr>], s))\<close>
proof (intro conjI allI impI)
  fix fnSchema userImplementation and tool :: "'s tool" and T
  assume h: "makeTool fnSchema userImplementation = Inr tool
       \<and> parameters fnSchema = [Some T] \<and> typeName T \<noteq> ''ZodObject''"
  then have tool: "tool = \<lparr>zodFunctionSchema = fnSchema\<lparr>parameters := [Some (ZodObject [(''input'', T)])]\<rparr>,
                 implementation = implement [Some (ZodObject [(''input'', T)])] (returnType fnSchema)
                                    (passToImplementation True userImplementation)\<rparr>"
    by (intro makeTool_wrapping) simp_all
  then show "parameters (zodFunctionSchema tool) = [Some (ZodObject [(''input'', T)])]"
    by simp
  fix obj d s
  assume "safeParse T (get_prop obj ''input'') = Inr d"
  with tool show "implementation tool (JObj obj) s
               = parse_returned (returnType fnSchema) (userImplementation d s)"
    by (simp add: wrapped_call)
next
  show "makeTool palindrome_schema reverseString = Inr (getPalindrome :: 's tool)"
    by (rule makeTool_getPalindrome)
next
  fix settled and s :: 's
  show \<open>handleToolCalls settled [(''reverse'', getPalindrome)]
           [\<lparr>call_id = ''1'',
             call_function = \<lparr>call_name = ''reverse'', call_arguments = ''{"input":"hello"}''\<rparr>\<rparr>] s
         = Some (Inr [\<lparr>role = ''tool'', tool_call_id = ''1'', msg_name = ''reverse'',
                       content = Some ''olleh''\<rparr>], s)\<close>
    by (simp add: handleToolCalls_def dispatch_reverse Promise_all_resolved)
qed

theorem makeTool_input_wrapper_witness:
  "makeTool palindrome_schema (counting (JStr ''done'')) = Inr counted
   \<and> parameters palindrome_schema = [Some ZodString]
   \<and> typeName ZodString \<noteq> ''ZodObject''
   \<and> parameters (zodFunctionSchema counted) = [Some (ZodObject [(''input'', ZodString)])]
   \<and> safeParse ZodString (get_prop [(''input'', JStr ''hello'')] ''input'') = Inr (JStr ''hello'')
   \<and> implementation counted (JObj [(''input'', JStr ''hello'')]) 0
       = parse_returned (returnType palindrome_schema) (counting (JStr ''done'') (JStr ''hello'') 0)
   \<and> parse_returned (returnType palindrome_schema) (counting (JStr ''done'') (JStr ''hello'') 0)
       = (Inr (JStr ''done''), 1)"
proof -
  have p: "safeParse ZodString (get_prop [(''input'', JStr ''hello'')] ''input'') = Inr (JStr ''hello'')"
    by (simp add: safeParse_def get_prop_def)
  have q: "parameters palindrome_schema = [Some ZodString]"
    by (simp add: palindrome_schema_def)
  have pre: "makeTool palindrome_schema (counting (JStr ''done'')) = Inr counted
       \<and> parameters palindrome_schema = [Some ZodString] \<and> typeName ZodString \<noteq> ''ZodObject''"
    using makeTool_counted q by simp
  note general = makeTool_input_wrapper [where 's = nat, THEN conjunct1, rule_format, OF pre]
  from general [THEN conjunct1] general [THEN conjunct2, rule_format, OF p, of 0]
  have "parameters (zodFunctionSchema counted) = [Some (ZodObject [(''input'', ZodString)])]
        \<and> implementation counted (JObj [(''input'', JStr ''hello'')]) 0
       = parse_returned (returnType palindrome_schema) (counting (JStr ''done'') (JStr ''hello'') 0)"
    by (rule conjI)
  then show ?thesis
    using makeTool_counted p q
    by (simp add: parse_returned_Inr counting_def palindrome_schema_def safeParse_def)
qed

section \<open>The scenarios of dispatch\<close>









lemma answer_tool:
  "answer =
     \<lparr>zodFunctionSchema = \<lparr>parameters = [None], returnType = ZodNumber,
                            description = Some ''The answer''\<rparr>,
      implementation = implement [None] ZodNumber
                         (passToImplementation False (counting (JNum (js_int (- 42)))))\<rparr>"
  by (simp add: answer_def makeTool_def args1_def Let_def)

lemma getWeather_tool:
  "getWeather =
     \<lparr>zodFunctionSchema =
        \<lparr>parameters = [None],
         returnType = ZodObject [(''temperature'', ZodNumber), (''description'', ZodString)],
         description = Some ''temperature lookup''\<rparr>,
      implementation =
        implement [None]
          (ZodObject [(''temperature'', ZodNumber), (''description'', ZodString)])
          (passToImplementation False currentWeather)\<rparr>"
  by (simp add: getWeather_def makeTool_def weather_schema_def args1_def Let_def)

lemma number_toString_answer: "number_toString (js_int (- 42)) = ''-42''"
  by code_simp

lemma number_toString_exponent:
  "number_toString (js_int 1000000000000000000000) = ''1e+21''"
  by code_simp

lemma number_toString_fraction: "number_toString (decimal 15 (- 1)) = ''1.5''"
  by code_simp

lemma dispatch_answer:
  \<open>handleToolCall [(''answer'', answer)]
     \<lparr>call_id = ''7'', call_function = \<lparr>call_name = ''answer'', call_arguments = ''{}''\<rparr>\<rparr> 0
   = Some (Inr \<lparr>role = ''tool'', tool_call_id = ''7'', msg_name = ''answer'',
                content = Some ''-42''\<rparr>, 1)\<close>
  by (simp add: handleToolCall_def lookup_tool_def parse_empty_object answer_tool
      implement_single passToImplementation_def counting_def parse_returned_Inr safeParse_def
      callResultAsString_def number_toString_answer)

lemma stringify_weather:
  \<open>JSON_stringify (JObj [(''temperature'', JNum (js_int 72)), (''description'', JStr ''Sunny'')])
   = Some ''{"temperature":72,"description":"Sunny"}''\<close>
  by code_simp

lemma dispatch_weather:
  \<open>handleToolCall [(''getWeather'', getWeather)]
     \<lparr>call_id = ''8'', call_function = \<lparr>call_name = ''getWeather'', call_arguments = ''{}''\<rparr>\<rparr> s
   = Some (Inr \<lparr>role = ''tool'', tool_call_id = ''8'', msg_name = ''getWeather'',
                content = Some ''{"temperature":72,"description":"Sunny"}''\<rparr>, s)\<close>
proof -
  have "safeParse (ZodObject [(''temperature'', ZodNumber), (''description'', ZodString)])
          (JObj [(''temperature'', JNum (js_int 72)), (''description'', JStr ''Sunny'')])
        = Inr (JObj [(''temperature'', JNum (js_int 72)), (''description'', JStr ''Sunny'')])"
    by (simp add: safeParse_def get_prop_def has_key_Cons mergeObjectSync_def)
  then show ?thesis
    using stringify_weather
    by (simp add: handleToolCall_def lookup_tool_def parse_empty_object getWeather_tool
        implement_single passToImplementation_def currentWeather_def parse_returned_Inr
        callResultAsString_def)
qed

theorem handleToolCall_content_witness:
  \<open>handleToolCall [(''reverse'', getPalindrome)]
     \<lparr>call_id = ''1'',
      call_function = \<lparr>call_name = ''reverse'', call_arguments = ''{"input":"hello"}''\<rparr>\<rparr> ()
   = Some (Inr \<lparr>role = ''tool'', tool_call_id = ''1'', msg_name = ''reverse'',
                content = Some ''olleh''\<rparr>, ())
   \<and> (\<exists>tool arg.
         map_of [(''reverse'', getPalindrome)] ''reverse'' = Some tool
         \<and> JSON_parse ''{"input":"hello"}'' = Some (Inr arg)
         \<and> implementation tool arg () = (Inr (JStr ''olleh''), ()))
   \<and> handleToolCall [(''answer'', answer)]
        \<lparr>call_id = ''7'', call_function = \<lparr>call_name = ''answer'', call_arguments = ''{}''\<rparr>\<rparr> 0
      = Some (Inr \<lparr>role = ''tool'', tool_call_id = ''7'', msg_name = ''answer'',
                   content = Some ''-42''\<rparr>, 1)
   \<and> is_decimal ''42'' \<and> decimal_value ''42'' = 42
   \<and> callResultAsString (JNum (js_int 1000000000000000000000)) = Some ''1e+21''
   \<and> callResultAsString (JNum (decimal 15 (- 1))) = Some ''1.5''
   \<and> handleToolCall [(''getWeather'', getWeather)]
        \<lparr>call_id = ''8'', call_function = \<lparr>call_name = ''getWeather'', call_arguments = ''{}''\<rparr>\<rparr> ()
      = Some (Inr \<lparr>role = ''tool'', tool_call_id = ''8'', msg_name = ''getWeather'',
                   content = Some ''{"temperature":72,"description":"Sunny"}''\<rparr>, ())\<close>
proof -
  from handleToolCall_content [OF dispatch_reverse [of "()"]]
  obtain tool arg callResult where
    "map_of [(''reverse'', getPalindrome)] ''reverse'' = Some tool"
    \<open>JSON_parse ''{"input":"hello"}'' = Some (Inr arg)\<close>
    "implementation tool arg () = (Inr callResult, ())"
    by auto
  moreover from this have "callResult = JStr ''olleh''"
    by (auto simp: parse_hello getPalindrome_call)
  ultimately have
    \<open>\<exists>tool arg.
         map_of [(''reverse'', getPalindrome)] ''reverse'' = Some tool
         \<and> JSON_parse ''{"input":"hello"}'' = Some (Inr arg)
         \<and> implementation tool arg () = (Inr (JStr ''olleh''), ())\<close>
    by blast
  moreover have "is_decimal ''42'' \<and> decimal_value ''42'' = 42"
    by (simp add: is_decimal_def decimal_value_def digit_value_def)
  ultimately show ?thesis
    using dispatch_reverse [of "()"] dispatch_answer dispatch_weather [of "()"]
    by (simp add: callResultAsString_def number_toString_exponent number_toString_fraction)
qed

lemma broken_tool:
  "broken =
     \<lparr>zodFunctionSchema = \<lparr>parameters = [None], returnType = ZodString,
                            description = Some ''Fails''\<rparr>,
      implementation = implement [None] ZodString (passToImplementation False failing)\<rparr>"
  by (simp add: broken_def makeTool_def args1_def Let_def)

theorem handleToolCalls_unknown_tool_witness:
  \<open>map_of [(''reverse'', getPalindrome :: unit tool)] ''missing'' = None
   \<and> handleToolCall [(''reverse'', getPalindrome)]
       \<lparr>call_id = ''2'', call_function = \<lparr>call_name = ''missing'', call_arguments = ''{}''\<rparr>\<rparr> ()
     = Some (Inl (TypeError ''Cannot read properties of undefined''), ())
   \<and> (\<exists>e s'. handleToolCalls [1, 0] [(''reverse'', getPalindrome)]
               [\<lparr>call_id = ''1'',
                 call_function = \<lparr>call_name = ''reverse'', call_arguments = ''{"input":"hello"}''\<rparr>\<rparr>,
                \<lparr>call_id = ''2'',
                 call_function = \<lparr>call_name = ''missing'', call_arguments = ''{}''\<rparr>\<rparr>] ()
             = Some (Inl e, s'))
   \<and> map_of [(''reverse'', getPalindrome :: unit tool)] ''toString'' = None
   \<and> handleToolCall [(''reverse'', getPalindrome)]
       \<lparr>call_id = ''4'', call_function = \<lparr>call_name = ''toString'', call_arguments = ''{}''\<rparr>\<rparr> ()
     = Some (Inl (TypeError ''tool.implementation is not a function''), ())\<close>
proof -
  let ?tools = "[(''reverse'', getPalindrome :: unit tool)]"
  let ?c1 = \<open>\<lparr>call_id = ''1'',
       call_function = \<lparr>call_name = ''reverse'', call_arguments = ''{"input":"hello"}''\<rparr>\<rparr>\<close>
  let ?c2 = \<open>\<lparr>call_id = ''2'', call_function = \<lparr>call_name = ''missing'', call_arguments = ''{}''\<rparr>\<rparr>\<close>
  let ?c4 = \<open>\<lparr>call_id = ''4'', call_function = \<lparr>call_name = ''toString'', call_arguments = ''{}''\<rparr>\<rparr>\<close>
  have mem: "?c2 \<in> set [?c1, ?c2]" by simp
  have absent: "map_of ?tools (call_name (call_function ?c2)) = None" by simp
  note missing = handleToolCalls_unknown_tool [OF mem absent]
  have "call_name (call_function ?c2) \<notin> set Object_prototype_keys"
    by (simp add: Object_prototype_keys_def)
  with missing have
    one: "handleToolCall ?tools ?c2 () = Some (Inl (TypeError ''Cannot read properties of undefined''), ())"
    by blast
  have "\<forall>c \<in> set [?c1, ?c2]. JSON_parse (call_arguments (call_function c)) \<noteq> None"
    by (simp add: parse_hello parse_empty_object)
  with missing have
    batch: "\<exists>e s'. handleToolCalls [1, 0] ?tools [?c1, ?c2] () = Some (Inl e, s')"
    by blast
  have mem': "?c4 \<in> set [?c4]" by simp
  have absent': "map_of ?tools (call_name (call_function ?c4)) = None" by simp
  note inherited = handleToolCalls_unknown_tool [OF mem' absent']
  have "call_name (call_function ?c4) \<in> set Object_prototype_keys"
    by (simp add: Object_prototype_keys_def)
  with inherited have
    "handleToolCall ?tools ?c4 ()
       = (case JSON_parse (call_arguments (call_function ?c4)) of
            None \<Rightarrow> None
          | Some (Inl e) \<Rightarrow> Some (Inl e, ())
          | Some (Inr arg) \<Rightarrow>
              Some (Inl (TypeError ''tool.implementation is not a function''), ()))"
    by blast
  then have two: "handleToolCall ?tools ?c4 ()
       = Some (Inl (TypeError ''tool.implementation is not a function''), ())"
    by (simp add: parse_empty_object)
  from one batch two show ?thesis by simp
qed

text \<open>
  The claim as the specification words it fails, in two ways. A name that is not in the
  registry may still be found: for \<^verbatim>\<open>constructor\<close> the lookup yields what
  \<^verbatim>\<open>Object.prototype\<close> has, and the call fails later, with the \<^verbatim>\<open>SyntaxError\<close> of its
  arguments when they are not JSON. And the failure of a name that is found nowhere is
  not an error of its own kind: it is the \<^verbatim>\<open>TypeError\<close> that a registered tool throws when
  its implementation reads a property of \<^verbatim>\<open>undefined\<close>, so the two calls have the same
  outcome.
\<close>

theorem handleToolCalls_unknown_tool_counterexample:
  \<open>map_of [(''reverse'', getPalindrome :: unit tool)] ''constructor'' = None
   \<and> handleToolCall [(''reverse'', getPalindrome)]
       \<lparr>call_id = ''1'',
        call_function = \<lparr>call_name = ''constructor'', call_arguments = ''not json''\<rparr>\<rparr> ()
     = Some (Inl SyntaxError, ())
   \<and> handleToolCall [(''reverse'', getPalindrome)]
       \<lparr>call_id = ''1'',
        call_function = \<lparr>call_name = ''constructor'', call_arguments = ''{}''\<rparr>\<rparr> ()
     = Some (Inl (TypeError ''tool.implementation is not a function''), ())
   \<and> map_of [(''reverse'', getPalindrome :: unit tool)] ''missing'' = None
   \<and> handleToolCall [(''reverse'', getPalindrome)]
       \<lparr>call_id = ''2'', call_function = \<lparr>call_name = ''missing'', call_arguments = ''{}''\<rparr>\<rparr> ()
     = Some (Inl (TypeError ''Cannot read properties of undefined''), ())
   \<and> map_of [(''reverse'', getPalindrome), (''missing'', broken :: unit tool)] ''missing''
     = Some broken
   \<and> handleToolCall [(''reverse'', getPalindrome), (''missing'', broken)]
       \<lparr>call_id = ''2'', call_function = \<lparr>call_name = ''missing'', call_arguments = ''{}''\<rparr>\<rparr> ()
     = Some (Inl (TypeError ''Cannot read properties of undefined''), ())\<close>
  by (simp add: handleToolCall_def lookup_tool_def Object_prototype_keys_def parse_not_json
      parse_empty_object broken_tool implement_single passToImplementation_def failing_def
      parse_returned_Inl)







section \<open>Properties of \<open>formatTools\<close>\<close>

lemma map_throwing_Inr:
  "map_throwing f xs = Inr ys \<longleftrightarrow> list_all2 (\<lambda>x y. f x = Inr y) xs ys"
proof (induction xs arbitrary: ys)
  case Nil
  show ?case by auto
next
  case (Cons x xs)
  show ?case
  proof (cases "f x")
    case (Inl e)
    then show ?thesis by (auto simp: list_all2_Cons1)
  next
    case (Inr y)
    with Cons show ?thesis
      by (cases "map_throwing f xs") (auto simp: list_all2_Cons1)
  qed
qed

lemma map_throwing_Inl:
  "(\<exists>e. map_throwing f xs = Inl e) \<longleftrightarrow> (\<exists>x \<in> set xs. isl (f x))"
proof (induction xs)
  case Nil
  show ?case by simp
next
  case (Cons x xs)
  then show ?case
    by (cases "f x"; cases "map_throwing f xs") auto
qed

lemma map_throwing_returns:
  "(\<exists>ys. map_throwing f xs = Inr ys) \<longleftrightarrow> (\<forall>x \<in> set xs. \<exists>y. f x = Inr y)"
proof (induction xs)
  case Nil
  show ?case by simp
next
  case (Cons x xs)
  then show ?case
    by (cases "f x"; cases "map_throwing f xs") auto
qed

lemma formatTool_unfold:
  "formatTool (name, fn) =
     (if 1 < length (parameters (zodFunctionSchema fn))
      then Inl (InvariantFailed zero_or_one_argument_message)
      else
        (case trimGeneratedJsonSchema (zodToJsonSchema (returnType (zodFunctionSchema fn))) of
           Inl e \<Rightarrow> Inl e
         | Inr trimmed \<Rightarrow>
            (case argument_schema (parameters (zodFunctionSchema fn)) of
               Inl e \<Rightarrow> Inl e
             | Inr params \<Rightarrow>
                Inr \<lparr>tool_type = ''function'',
                     tool_function =
                       \<lparr>fn_name = name,
                        fn_description =
                          (case description (zodFunctionSchema fn) of
                             None \<Rightarrow> []
                           | Some d \<Rightarrow> if d = [] then [] else d @ [CHR 0x0A, CHR 0x0A])
                          @ ''Responses will match the following JSONSchema definition: ''
                          @ the (JSON_stringify (JObj trimmed)),
                        fn_parameters = params\<rparr>\<rparr>)))"
proof (cases "1 < length (parameters (zodFunctionSchema fn))")
  case True
  then show ?thesis
    by (auto simp: formatTool_def Let_def)
next
  case False
  then have "length (parameters (zodFunctionSchema fn)) = 1
             \<or> length (parameters (zodFunctionSchema fn)) = 0"
    by arith
  with False show ?thesis
    unfolding formatTool_def argument_schema_def Let_def fst_conv snd_conv
    by (simp split: sum.splits)
qed

lemma argument_schema_cases:
  "argument_schema [] = Inr None"
  "argument_schema [None] = Inr None"
  "argument_schema [Some A] =
     (case trimGeneratedJsonSchema (zodToJsonSchema A) of
        Inl e \<Rightarrow> Inl e | Inr params \<Rightarrow> Inr (Some params))"
  by (simp_all add: argument_schema_def)

lemma argument_schema_None:
  assumes "length ps \<le> 1" and "argument_schema ps = Inr params"
  shows "params = None \<longleftrightarrow> (ps = [] \<or> ps = [None])"
proof -
  from assms(1) consider "ps = []" | "ps = [None]" | A where "ps = [Some A]"
    by (cases ps; cases "hd ps") (auto simp: length_Suc_conv)
  then show ?thesis
    using assms(2) by cases (auto simp: argument_schema_cases split: sum.splits)
qed

lemma formatTool_Inr:
  assumes "formatTool (name, fn) = Inr entry"
  obtains trimmed params where
    "length (parameters (zodFunctionSchema fn)) \<le> 1"
    "trimGeneratedJsonSchema (zodToJsonSchema (returnType (zodFunctionSchema fn))) = Inr trimmed"
    "argument_schema (parameters (zodFunctionSchema fn)) = Inr params"
    "entry = \<lparr>tool_type = ''function'',
              tool_function =
                \<lparr>fn_name = name,
                 fn_description =
                   (case description (zodFunctionSchema fn) of
                      None \<Rightarrow> []
                    | Some d \<Rightarrow> if d = [] then [] else d @ [CHR 0x0A, CHR 0x0A])
                   @ ''Responses will match the following JSONSchema definition: ''
                   @ the (JSON_stringify (JObj trimmed)),
                 fn_parameters = params\<rparr>\<rparr>"
proof -
  from assms have len: "length (parameters (zodFunctionSchema fn)) \<le> 1"
    by (auto simp: formatTool_unfold split: if_splits)
  with assms obtain trimmed where
    t: "trimGeneratedJsonSchema (zodToJsonSchema (returnType (zodFunctionSchema fn))) = Inr trimmed"
    by (cases "trimGeneratedJsonSchema (zodToJsonSchema (returnType (zodFunctionSchema fn)))")
       (auto simp: formatTool_unfold)
  with assms len obtain params where
    p: "argument_schema (parameters (zodFunctionSchema fn)) = Inr params"
    by (cases "argument_schema (parameters (zodFunctionSchema fn))")
       (auto simp: formatTool_unfold)
  from assms len t p show ?thesis
    by (intro that [of trimmed params]) (auto simp: formatTool_unfold)
qed

lemma formatTool_returns_iff:
  "(\<exists>entry. formatTool (name, fn) = Inr entry) \<longleftrightarrow>
     length (parameters (zodFunctionSchema fn)) \<le> 1
     \<and> has_key ''type'' (zodToJsonSchema (returnType (zodFunctionSchema fn)))
     \<and> (\<forall>A. parameters (zodFunctionSchema fn) = [Some A] \<longrightarrow>
           has_key ''type'' (zodToJsonSchema A))"
proof
  assume "\<exists>entry. formatTool (name, fn) = Inr entry"
  then obtain entry where "formatTool (name, fn) = Inr entry" ..
  then obtain trimmed params where
    len: "length (parameters (zodFunctionSchema fn)) \<le> 1"
    and t: "trimGeneratedJsonSchema (zodToJsonSchema (returnType (zodFunctionSchema fn))) = Inr trimmed"
    and p: "argument_schema (parameters (zodFunctionSchema fn)) = Inr params"
    by (rule formatTool_Inr)
  from t have "has_key ''type'' (zodToJsonSchema (returnType (zodFunctionSchema fn)))"
    using trimGeneratedJsonSchema_fails by fastforce
  moreover have "has_key ''type'' (zodToJsonSchema A)"
    if "parameters (zodFunctionSchema fn) = [Some A]" for A
    using p that trimGeneratedJsonSchema_fails [of "zodToJsonSchema A"]
    by (auto simp: argument_schema_cases split: sum.splits)
  ultimately show "length (parameters (zodFunctionSchema fn)) \<le> 1
     \<and> has_key ''type'' (zodToJsonSchema (returnType (zodFunctionSchema fn)))
     \<and> (\<forall>A. parameters (zodFunctionSchema fn) = [Some A] \<longrightarrow>
           has_key ''type'' (zodToJsonSchema A))"
    using len by blast
next
  assume h: "length (parameters (zodFunctionSchema fn)) \<le> 1
     \<and> has_key ''type'' (zodToJsonSchema (returnType (zodFunctionSchema fn)))
     \<and> (\<forall>A. parameters (zodFunctionSchema fn) = [Some A] \<longrightarrow>
           has_key ''type'' (zodToJsonSchema A))"
  then consider "parameters (zodFunctionSchema fn) = []"
    | "parameters (zodFunctionSchema fn) = [None]"
    | A where "parameters (zodFunctionSchema fn) = [Some A]"
    by (cases "parameters (zodFunctionSchema fn)"; cases "hd (parameters (zodFunctionSchema fn))")
       (auto simp: length_Suc_conv)
  then show "\<exists>entry. formatTool (name, fn) = Inr entry"
  proof cases
    case 1
    with h show ?thesis
      by (simp add: formatTool_unfold argument_schema_cases trimGeneratedJsonSchema_returns
          del: if_split)
  next
    case 2
    with h show ?thesis
      by (simp add: formatTool_unfold argument_schema_cases trimGeneratedJsonSchema_returns
          del: if_split)
  next
    case (3 A)
    with h have "has_key ''type'' (zodToJsonSchema A)" by blast
    with 3 h show ?thesis
      by (simp add: formatTool_unfold argument_schema_cases trimGeneratedJsonSchema_returns
          del: if_split)
  qed
qed

lemma makeTool_stored_parameters:
  assumes "makeTool fnSchema userImplementation = Inr tool"
    and "list_all (\<lambda>item. item \<noteq> None) (parameters fnSchema)"
  shows "(parameters (zodFunctionSchema tool) = [] \<or> parameters (zodFunctionSchema tool) = [None])
         \<longleftrightarrow> length (parameters fnSchema) = 0"
  using assms(1)
proof (cases rule: makeTool_cases)
  case none
  with assms(2) have "parameters fnSchema = []" by auto
  with makeTool_no_argument [OF assms(1) none] show ?thesis by simp
next
  case (wrapped T)
  with makeTool_wrapping [OF assms(1) wrapped] show ?thesis by simp
next
  case (object T)
  with makeTool_object [OF assms(1) object] show ?thesis by simp
qed

lemma makeTool_getWeather: "makeTool weather_schema currentWeather = Inr getWeather"
  by (simp add: getWeather_def makeTool_def weather_schema_def Let_def)

lemma stringify_weather_schema:
  \<open>JSON_stringify
     (JObj [(''type'', JStr ''object''),
            (''properties'',
             JObj [(''temperature'', JObj [(''type'', JStr ''number'')]),
                   (''description'', JObj [(''type'', JStr ''string'')])]),
            (''required'', JArr [JStr ''temperature'', JStr ''description'']),
            (''description'', JUndefined)])
   = Some ''{"type":"object","properties":{"temperature":{"type":"number"},"description":{"type":"string"}},"required":["temperature","description"]}''\<close>
  by (simp add: quote_def quote_char_def)

lemma formatTools_weather:
  \<open>formatTools [(''getWeather'', getWeather)] =
     Inr [\<lparr>tool_type = ''function'',
           tool_function =
             \<lparr>fn_name = ''getWeather'',
              fn_description =
                ''temperature lookup'' @ [CHR 0x0A, CHR 0x0A]
                @ ''Responses will match the following JSONSchema definition: ''
                @ ''{"type":"object","properties":{"temperature":{"type":"number"},"description":{"type":"string"}},"required":["temperature","description"]}'',
              fn_parameters = None\<rparr>\<rparr>]\<close>
proof -
  have "trimGeneratedJsonSchema
          (zodToJsonSchema (ZodObject [(''temperature'', ZodNumber), (''description'', ZodString)]))
        = Inr [(''type'', JStr ''object''),
            (''properties'',
             JObj [(''temperature'', JObj [(''type'', JStr ''number'')]),
                   (''description'', JObj [(''type'', JStr ''string'')])]),
            (''required'', JArr [JStr ''temperature'', JStr ''description'']),
            (''description'', JUndefined)]"
    by (simp add: evaluation_rules)
  then show ?thesis
    using stringify_weather_schema
    by (simp add: formatTools_def formatTool_unfold getWeather_tool argument_schema_cases)
qed

lemma formatTool_entry:
  assumes "formatTool (name, tool) = Inr entry"
  shows "tool_type entry = ''function'' \<and> fn_name (tool_function entry) = name
     \<and> (\<exists>trimmed reminder.
           trimGeneratedJsonSchema (zodToJsonSchema (returnType (zodFunctionSchema tool))) = Inr trimmed
           \<and> JSON_stringify (JObj trimmed) = Some reminder
           \<and> (\<forall>d. description (zodFunctionSchema tool) = Some d \<and> d \<noteq> [] \<longrightarrow>
                 fn_description (tool_function entry)
                   = d @ [CHR 0x0A, CHR 0x0A]
                     @ ''Responses will match the following JSONSchema definition: '' @ reminder)
           \<and> (description (zodFunctionSchema tool) = None
               \<or> description (zodFunctionSchema tool) = Some [] \<longrightarrow>
                 fn_description (tool_function entry)
                   = ''Responses will match the following JSONSchema definition: '' @ reminder))
     \<and> ((fn_parameters (tool_function entry) = None)
          = (parameters (zodFunctionSchema tool) = [] \<or> parameters (zodFunctionSchema tool) = [None]))
     \<and> (\<forall>A. parameters (zodFunctionSchema tool) = [Some A] \<longrightarrow>
           (\<exists>p. trimGeneratedJsonSchema (zodToJsonSchema A) = Inr p
                \<and> fn_parameters (tool_function entry) = Some p))"
proof -
  from assms obtain trimmed params where
    len: "length (parameters (zodFunctionSchema tool)) \<le> 1"
    and t: "trimGeneratedJsonSchema (zodToJsonSchema (returnType (zodFunctionSchema tool))) = Inr trimmed"
    and p: "argument_schema (parameters (zodFunctionSchema tool)) = Inr params"
    and e: "entry = \<lparr>tool_type = ''function'',
              tool_function =
                \<lparr>fn_name = name,
                 fn_description =
                   (case description (zodFunctionSchema tool) of
                      None \<Rightarrow> []
                    | Some d \<Rightarrow> if d = [] then [] else d @ [CHR 0x0A, CHR 0x0A])
                   @ ''Responses will match the following JSONSchema definition: ''
                   @ the (JSON_stringify (JObj trimmed)),
                 fn_parameters = params\<rparr>\<rparr>"
    by (rule formatTool_Inr)
  obtain reminder where reminder: "JSON_stringify (JObj trimmed) = Some reminder"
    by simp
  have descr: "(\<forall>d. description (zodFunctionSchema tool) = Some d \<and> d \<noteq> [] \<longrightarrow>
                 fn_description (tool_function entry)
                   = d @ [CHR 0x0A, CHR 0x0A]
                     @ ''Responses will match the following JSONSchema definition: '' @ reminder)
           \<and> (description (zodFunctionSchema tool) = None
               \<or> description (zodFunctionSchema tool) = Some [] \<longrightarrow>
                 fn_description (tool_function entry)
                   = ''Responses will match the following JSONSchema definition: '' @ reminder)"
    using e reminder by auto
  have params: "(fn_parameters (tool_function entry) = None)
          = (parameters (zodFunctionSchema tool) = [] \<or> parameters (zodFunctionSchema tool) = [None])"
    using e argument_schema_None [OF len p] by simp
  have arg: "\<forall>A. parameters (zodFunctionSchema tool) = [Some A] \<longrightarrow>
           (\<exists>p. trimGeneratedJsonSchema (zodToJsonSchema A) = Inr p
                \<and> fn_parameters (tool_function entry) = Some p)"
    using e p by (auto simp: argument_schema_cases split: sum.splits)
  from e have "tool_type entry = ''function''" "fn_name (tool_function entry) = name"
    by simp_all
  with t reminder descr params arg show ?thesis by blast
qed

text \<open>
  Claim C9, as the code has it. Whenever \<open>formatTools\<close> returns, it has one entry for each
  tool of the registry, in the registry's order: its type is \<^verbatim>\<open>function\<close>, its name is the
  tool's key, its description is the tool's description followed by an empty line (when
  there is a non-empty description) and then by the reminder, which is the JSON text of
  the trimmed schema of the return type; its \<^verbatim>\<open>parameters\<close> are absent exactly when the
  tool stores no argument schema, and are the trimmed schema of the stored argument
  otherwise. \<open>formatTools\<close> returns exactly when every tool has at most one argument and
  the generated schemas of its return type and of its argument have a \<^verbatim>\<open>type\<close> key. A tool
  built by \<open>makeTool\<close> stores no argument schema exactly when its signature declares no
  argument. The weather tool, which declares none, yields the entry with \<^verbatim>\<open>parameters\<close>
  absent and the description made of the original text and the reminder.
\<close>

theorem formatTools_entries:
  \<open>(\<forall>(tools :: 's ToolRecord) entries.
       formatTools tools = Inr entries \<longrightarrow>
       length entries = length tools
       \<and> (\<forall>i < length tools.
            tool_type (entries ! i) = ''function''
            \<and> fn_name (tool_function (entries ! i)) = fst (tools ! i)
            \<and> (\<exists>trimmed reminder.
                  trimGeneratedJsonSchema
                    (zodToJsonSchema (returnType (zodFunctionSchema (snd (tools ! i))))) = Inr trimmed
                  \<and> JSON_stringify (JObj trimmed) = Some reminder
                  \<and> (\<forall>d. description (zodFunctionSchema (snd (tools ! i))) = Some d \<and> d \<noteq> [] \<longrightarrow>
                        fn_description (tool_function (entries ! i))
                          = d @ [CHR 0x0A, CHR 0x0A]
                            @ ''Responses will match the following JSONSchema definition: '' @ reminder)
                  \<and> (description (zodFunctionSchema (snd (tools ! i))) = None
                      \<or> description (zodFunctionSchema (snd (tools ! i))) = Some [] \<longrightarrow>
                        fn_description (tool_function (entries ! i))
                          = ''Responses will match the following JSONSchema definition: '' @ reminder))
            \<and> ((fn_parameters (tool_function (entries ! i)) = None)
                 = (parameters (zodFunctionSchema (snd (tools ! i))) = []
                    \<or> parameters (zodFunctionSchema (snd (tools ! i))) = [None]))
            \<and> (\<forall>A. parameters (zodFunctionSchema (snd (tools ! i))) = [Some A] \<longrightarrow>
                  (\<exists>p. trimGeneratedJsonSchema (zodToJsonSchema A) = Inr p
                       \<and> fn_parameters (tool_function (entries ! i)) = Some p))))
   \<and> (\<forall>tools :: 's ToolRecord.
         (\<exists>entries. formatTools tools = Inr entries) \<longleftrightarrow>
         (\<forall>entry \<in> set tools.
            length (parameters (zodFunctionSchema (snd entry))) \<le> 1
            \<and> has_key ''type'' (zodToJsonSchema (returnType (zodFunctionSchema (snd entry))))
            \<and> (\<forall>A. parameters (zodFunctionSchema (snd entry)) = [Some A] \<longrightarrow>
                  has_key ''type'' (zodToJsonSchema A))))
   \<and> (\<forall>fnSchema userImplementation (tool :: 's tool).
         makeTool fnSchema userImplementation = Inr tool
         \<and> list_all (\<lambda>item. item \<noteq> None) (parameters fnSchema) \<longrightarrow>
         ((parameters (zodFunctionSchema tool) = [] \<or> parameters (zodFunctionSchema tool) = [None])
           \<longleftrightarrow> length (parameters fnSchema) = 0))
   \<and> makeTool weather_schema currentWeather = Inr (getWeather :: 's tool)
   \<and> formatTools [(''getWeather'', getWeather :: 's tool)] =
       Inr [\<lparr>tool_type = ''function'',
             tool_function =
               \<lparr>fn_name = ''getWeather'',
                fn_description =
                  ''temperature lookup'' @ [CHR 0x0A, CHR 0x0A]
                  @ ''Responses will match the following JSONSchema definition: ''
                  @ ''{"type":"object","properties":{"temperature":{"type":"number"},"description":{"type":"string"}},"required":["temperature","description"]}'',
                fn_parameters = None\<rparr>\<rparr>]\<close>
proof (intro conjI)
  show \<open>\<forall>(tools :: 's ToolRecord) entries.
       formatTools tools = Inr entries \<longrightarrow>
       length entries = length tools
       \<and> (\<forall>i < length tools.
            tool_type (entries ! i) = ''function''
            \<and> fn_name (tool_function (entries ! i)) = fst (tools ! i)
            \<and> (\<exists>trimmed reminder.
                  trimGeneratedJsonSchema
                    (zodToJsonSchema (returnType (zodFunctionSchema (snd (tools ! i))))) = Inr trimmed
                  \<and> JSON_stringify (JObj trimmed) = Some reminder
                  \<and> (\<forall>d. description (zodFunctionSchema (snd (tools ! i))) = Some d \<and> d \<noteq> [] \<longrightarrow>
                        fn_description (tool_function (entries ! i))
                          = d @ [CHR 0x0A, CHR 0x0A]
                            @ ''Responses will match the following JSONSchema definition: '' @ reminder)
                  \<and> (description (zodFunctionSchema (snd (tools ! i))) = None
                      \<or> description (zodFunctionSchema (snd (tools ! i))) = Some [] \<longrightarrow>
                        fn_description (tool_function (entries ! i))
                          = ''Responses will match the following JSONSchema definition: '' @ reminder))
            \<and> ((fn_parameters (tool_function (entries ! i)) = None)
                 = (parameters (zodFunctionSchema (snd (tools ! i))) = []
                    \<or> parameters (zodFunctionSchema (snd (tools ! i))) = [None]))
            \<and> (\<forall>A. parameters (zodFunctionSchema (snd (tools ! i))) = [Some A] \<longrightarrow>
                  (\<exists>p. trimGeneratedJsonSchema (zodToJsonSchema A) = Inr p
                       \<and> fn_parameters (tool_function (entries ! i)) = Some p)))\<close>
    apply (intro allI impI)
    apply (rule conjI)
     apply (simp add: formatTools_def map_throwing_Inr list_all2_lengthD)
    apply (intro allI impI)
    apply (rule formatTool_entry)
    apply (simp add: formatTools_def map_throwing_Inr list_all2_conv_all_nth)
    done
next
  have returns: "(\<exists>entries. formatTools tools = Inr entries) \<longleftrightarrow>
         (\<forall>entry \<in> set tools.
            length (parameters (zodFunctionSchema (snd entry))) \<le> 1
            \<and> has_key ''type'' (zodToJsonSchema (returnType (zodFunctionSchema (snd entry))))
            \<and> (\<forall>A. parameters (zodFunctionSchema (snd entry)) = [Some A] \<longrightarrow>
                  has_key ''type'' (zodToJsonSchema A)))" for tools :: "'s ToolRecord"
  proof -
    have "(\<exists>entry. formatTool item = Inr entry) \<longleftrightarrow>
            length (parameters (zodFunctionSchema (snd item))) \<le> 1
            \<and> has_key ''type'' (zodToJsonSchema (returnType (zodFunctionSchema (snd item))))
            \<and> (\<forall>A. parameters (zodFunctionSchema (snd item)) = [Some A] \<longrightarrow>
                  has_key ''type'' (zodToJsonSchema A))" for item :: "string \<times> 's tool"
      using formatTool_returns_iff [of "fst item" "snd item"] by simp
    then show ?thesis
      by (simp only: formatTools_def map_throwing_returns)
  qed
  then show "\<forall>tools :: 's ToolRecord.
         (\<exists>entries. formatTools tools = Inr entries) \<longleftrightarrow>
         (\<forall>entry \<in> set tools.
            length (parameters (zodFunctionSchema (snd entry))) \<le> 1
            \<and> has_key ''type'' (zodToJsonSchema (returnType (zodFunctionSchema (snd entry))))
            \<and> (\<forall>A. parameters (zodFunctionSchema (snd entry)) = [Some A] \<longrightarrow>
                  has_key ''type'' (zodToJsonSchema A)))"
    by (rule allI)
next
  show "\<forall>fnSchema userImplementation (tool :: 's tool).
         makeTool fnSchema userImplementation = Inr tool
         \<and> list_all (\<lambda>item. item \<noteq> None) (parameters fnSchema) \<longrightarrow>
         ((parameters (zodFunctionSchema tool) = [] \<or> parameters (zodFunctionSchema tool) = [None])
           \<longleftrightarrow> length (parameters fnSchema) = 0)"
    using makeTool_stored_parameters by blast
next
  show "makeTool weather_schema currentWeather = Inr (getWeather :: 's tool)"
    by (rule makeTool_getWeather)
next
  show \<open>formatTools [(''getWeather'', getWeather :: 's tool)] =
       Inr [\<lparr>tool_type = ''function'',
             tool_function =
               \<lparr>fn_name = ''getWeather'',
                fn_description =
                  ''temperature lookup'' @ [CHR 0x0A, CHR 0x0A]
                  @ ''Responses will match the following JSONSchema definition: ''
                  @ ''{"type":"object","properties":{"temperature":{"type":"number"},"description":{"type":"string"}},"required":["temperature","description"]}'',
                fn_parameters = None\<rparr>\<rparr>]\<close>
    by (rule formatTools_weather)
qed

text \<open>
  The claim as the specification words it fails for a registry that holds a tool whose
  signature declares no return type: \<open>makeTool\<close> accepts the signature, and \<open>formatTools\<close>
  throws on the registry, because the schema generated for \<^verbatim>\<open>z.unknown()\<close> has no \<^verbatim>\<open>type\<close>.
\<close>

theorem formatTools_entries_counterexample:
  "makeTool undeclared_schema (counting JNull) = Inr undeclared
   \<and> formatTools [(''noop'', undeclared)] = Inl (InvariantFailed not_convertible_message)"
  by (simp add: undeclared_def makeTool_def undeclared_schema_def args1_def Let_def
      formatTools_def formatTool_unfold zodToJsonSchema_def trimGeneratedJsonSchema_def
      has_key_Nil)

theorem formatTools_entries_witness:
  \<open>formatTools [(''getWeather'', getWeather :: unit tool), (''reverse'', getPalindrome)] =
     Inr [\<lparr>tool_type = ''function'',
           tool_function =
             \<lparr>fn_name = ''getWeather'',
              fn_description =
                ''temperature lookup'' @ [CHR 0x0A, CHR 0x0A]
                @ ''Responses will match the following JSONSchema definition: ''
                @ ''{"type":"object","properties":{"temperature":{"type":"number"},"description":{"type":"string"}},"required":["temperature","description"]}'',
              fn_parameters = None\<rparr>\<rparr>,
          \<lparr>tool_type = ''function'',
           tool_function =
             \<lparr>fn_name = ''reverse'',
              fn_description =
                ''Returns the palindrome of the input string'' @ [CHR 0x0A, CHR 0x0A]
                @ ''Responses will match the following JSONSchema definition: ''
                @ ''{"type":"string"}'',
              fn_parameters =
                Some [(''type'', JStr ''object''),
                      (''properties'', JObj [(''input'', JObj [(''type'', JStr ''string'')])]),
                      (''required'', JArr [JStr ''input'']),
                      (''description'', JUndefined)]\<rparr>\<rparr>]
   \<and> length [(''getWeather'', getWeather :: unit tool), (''reverse'', getPalindrome)] = 2
   \<and> parameters (zodFunctionSchema (getWeather :: unit tool)) = [None]
   \<and> parameters weather_schema = []\<close>
proof -
  have t1: "trimGeneratedJsonSchema
          (zodToJsonSchema (ZodObject [(''temperature'', ZodNumber), (''description'', ZodString)]))
        = Inr [(''type'', JStr ''object''),
            (''properties'',
             JObj [(''temperature'', JObj [(''type'', JStr ''number'')]),
                   (''description'', JObj [(''type'', JStr ''string'')])]),
            (''required'', JArr [JStr ''temperature'', JStr ''description'']),
            (''description'', JUndefined)]"
    by (simp add: evaluation_rules)
  have t2: "trimGeneratedJsonSchema (zodToJsonSchema ZodString)
        = Inr [(''type'', JStr ''string''), (''description'', JUndefined)]"
    by (simp add: evaluation_rules)
  have t3: "trimGeneratedJsonSchema (zodToJsonSchema (ZodObject [(''input'', ZodString)]))
        = Inr [(''type'', JStr ''object''),
                      (''properties'', JObj [(''input'', JObj [(''type'', JStr ''string'')])]),
                      (''required'', JArr [JStr ''input'']),
                      (''description'', JUndefined)]"
    by (simp add: evaluation_rules)
  have s2: \<open>JSON_stringify (JObj [(''type'', JStr ''string''), (''description'', JUndefined)])
             = Some ''{"type":"string"}''\<close>
    by (simp add: quote_def quote_char_def)
  have f: \<open>formatTools [(''getWeather'', getWeather :: unit tool), (''reverse'', getPalindrome)] =
     Inr [\<lparr>tool_type = ''function'',
           tool_function =
             \<lparr>fn_name = ''getWeather'',
              fn_description =
                ''temperature lookup'' @ [CHR 0x0A, CHR 0x0A]
                @ ''Responses will match the following JSONSchema definition: ''
                @ ''{"type":"object","properties":{"temperature":{"type":"number"},"description":{"type":"string"}},"required":["temperature","description"]}'',
              fn_parameters = None\<rparr>\<rparr>,
          \<lparr>tool_type = ''function'',
           tool_function =
             \<lparr>fn_name = ''reverse'',
              fn_description =
                ''Returns the palindrome of the input string'' @ [CHR 0x0A, CHR 0x0A]
                @ ''Responses will match the following JSONSchema definition: ''
                @ ''{"type":"string"}'',
              fn_parameters =
                Some [(''type'', JStr ''object''),
                      (''properties'', JObj [(''input'', JObj [(''type'', JStr ''string'')])]),
                      (''required'', JArr [JStr ''input'']),
                      (''description'', JUndefined)]\<rparr>\<rparr>]\<close>
    using t1 t2 t3 s2 stringify_weather_schema
    by (simp add: formatTools_def formatTool_unfold getWeather_tool getPalindrome_tool
        argument_schema_cases)
  from formatTools_entries [where 's = unit, THEN conjunct1, rule_format, OF f]
  have "length [(''getWeather'', getWeather :: unit tool), (''reverse'', getPalindrome)] = 2"
    by simp
  with f show ?thesis
    by (simp add: getWeather_tool weather_schema_def)
qed

end
